theory Spec2Isabelle
  imports Complex_Main
begin

section \<open>Python values, exceptions, references\<close>

text \<open>
  The statistics and event records that the Docker SDK hands to
  \<^verbatim>\<open>docker_utils.py\<close> are decoded JSON: \<^verbatim>\<open>None\<close>, booleans, numbers,
  strings, lists and dictionaries with string keys.  Numbers and clock readings are
  exact rationals; the rounding of binary floats is not part of the model.
\<close>

datatype pyval =
    PNone
  | PBool bool
  | PNum rat
  | PStr string
  | PList "pyval list"
  | PDict "(string \<times> pyval) list"

text \<open>
  The exception classes that occur.  \<^verbatim>\<open>TaskQueueFull\<close> is the class declared in
  \<^verbatim>\<open>worker.py\<close>; \<^verbatim>\<open>NotFound\<close> and \<^verbatim>\<open>APIError\<close> are those of \<^verbatim>\<open>docker.errors\<close>.
  All of them derive from \<^verbatim>\<open>Exception\<close>.
\<close>

datatype py_exc =
    KeyError
  | TypeError
  | AttributeError
  | ZeroDivisionError
  | ValueError
  | RuntimeError
  | NotFound
  | APIError
  | TaskQueueFull

text \<open>Sequencing of two computations that may raise.\<close>

definition and_then :: "py_exc + 'a \<Rightarrow> ('a \<Rightarrow> py_exc + 'b) \<Rightarrow> py_exc + 'b" where
  "and_then m f = (case m of Inl e \<Rightarrow> Inl e | Inr v \<Rightarrow> f v)"

text \<open>\<^verbatim>\<open>d[k]\<close> with a string key: only a dictionary can be subscripted this way.\<close>

fun subscript :: "pyval \<Rightarrow> string \<Rightarrow> py_exc + pyval" where
  "subscript (PDict kvs) k = (case map_of kvs k of None \<Rightarrow> Inl KeyError | Some v \<Rightarrow> Inr v)"
| "subscript _ k = Inl TypeError"

text \<open>\<^verbatim>\<open>d.get(k, default)\<close>: only a dictionary has the method.\<close>

fun get_default :: "pyval \<Rightarrow> string \<Rightarrow> pyval \<Rightarrow> py_exc + pyval" where
  "get_default (PDict kvs) k d = (case map_of kvs k of None \<Rightarrow> Inr d | Some v \<Rightarrow> Inr v)"
| "get_default _ k d = Inl AttributeError"

text \<open>The numeric value of a Python number (\<^verbatim>\<open>bool\<close> is a subclass of \<^verbatim>\<open>int\<close>).\<close>

fun num_of :: "pyval \<Rightarrow> rat option" where
  "num_of (PNum r) = Some r"
| "num_of (PBool b) = Some (if b then 1 else 0)"
| "num_of _ = None"

definition py_sub :: "pyval \<Rightarrow> pyval \<Rightarrow> py_exc + rat" where
  "py_sub a b =
     (case (num_of a, num_of b) of
        (Some x, Some y) \<Rightarrow> Inr (x - y)
      | _ \<Rightarrow> Inl TypeError)"

definition py_truediv :: "pyval \<Rightarrow> pyval \<Rightarrow> py_exc + rat" where
  "py_truediv a b =
     (case (num_of a, num_of b) of
        (Some x, Some y) \<Rightarrow> (if y = 0 then Inl ZeroDivisionError else Inr (x / y))
      | _ \<Rightarrow> Inl TypeError)"

definition py_mul_float :: "rat \<Rightarrow> pyval \<Rightarrow> py_exc + rat" where
  "py_mul_float x b = (case num_of b of Some y \<Rightarrow> Inr (x * y) | None \<Rightarrow> Inl TypeError)"

text \<open>Truthiness, as \<^verbatim>\<open>x or {}\<close> tests it.\<close>

fun truthy :: "pyval \<Rightarrow> bool" where
  "truthy PNone = False"
| "truthy (PBool b) = b"
| "truthy (PNum r) = (r \<noteq> 0)"
| "truthy (PStr s) = (s \<noteq> [])"
| "truthy (PList xs) = (xs \<noteq> [])"
| "truthy (PDict kvs) = (kvs \<noteq> [])"

text \<open>
  The resource lists that the data controller caches are shared mutable objects, so
  they live in a store.  A list object holds the addresses of its elements, each a
  dictionary object (\<^verbatim>\<open>List[Dict[str, Any]]\<close>).  An argument of a controller
  method is \<^verbatim>\<open>None\<close>, a reference to a list or to a dictionary, or an immutable
  string or integer.
\<close>

type_synonym addr = nat

record store =
  list_objs :: "addr \<Rightarrow> addr list"
  dict_objs :: "addr \<Rightarrow> (string \<times> pyval) list"
  next_addr :: addr

datatype pyref =
    RNone
  | RList addr
  | RDict addr
  | RStr string
  | RInt int

fun is_list :: "pyref \<Rightarrow> bool" where
  "is_list (RList a) = True"
| "is_list _ = False"


text \<open>The value of a list, as \<^verbatim>\<open>==\<close> compares it: the contents of its elements.\<close>

definition list_value :: "store \<Rightarrow> addr \<Rightarrow> (string \<times> pyval) list list" where
  "list_value st a = map (dict_objs st) (list_objs st a)"

text \<open>
  What a caller can do to an object it holds: give a list object new elements
  (\<^verbatim>\<open>append\<close>, \<^verbatim>\<open>pop\<close>, \<^verbatim>\<open>xs[i] = e\<close>, \<^verbatim>\<open>clear\<close>, ...), or give a dictionary
  object new entries (\<^verbatim>\<open>d[k] = v\<close>, \<^verbatim>\<open>del d[k]\<close>, ...).
\<close>

definition list_mutate :: "addr \<Rightarrow> addr list \<Rightarrow> store \<Rightarrow> store" where
  "list_mutate a elems st = st\<lparr>list_objs := (list_objs st)(a := elems)\<rparr>"

definition dict_mutate :: "addr \<Rightarrow> (string \<times> pyval) list \<Rightarrow> store \<Rightarrow> store" where
  "dict_mutate a kvs st = st\<lparr>dict_objs := (dict_objs st)(a := kvs)\<rparr>"

section \<open>Effects\<close>

text \<open>
  Everything a function does besides returning is recorded, in program order, as a
  list of effects: log records (the message is the format string of the source,
  without its apostrophes),
  calls to the container runtime, calls of an observer's \<^verbatim>\<open>update\<close>, and the
  calls made by the task runner.
\<close>

datatype level = DEBUG | INFO | WARNING | ERROR | CRITICAL

datatype runtime_call =
    StatsCall string
  | PauseCall string
  | StopCall string nat
  | RemoveCall string
  | RunCall "string option" "string list option" string "(string \<times> string) list"

text \<open>
  An observer is an object, known by its identity (for a class that defines
  \<^verbatim>\<open>__eq__\<close>, by what it is equal to).  Instances of most classes can be hashed by
  identity; instances of a class that defines \<^verbatim>\<open>__eq__\<close> without
  \<^verbatim>\<open>__hash__\<close> (a \<^verbatim>\<open>@dataclass\<close>, for one) cannot, and \<^verbatim>\<open>set(...)\<close> of them
  raises \<^verbatim>\<open>TypeError\<close>.
\<close>

datatype observer = Hashable nat | Unhashable nat

fun hashable :: "observer \<Rightarrow> bool" where
  "hashable (Hashable i) = True"
| "hashable (Unhashable i) = False"

datatype payload =
    DataRef pyref
  | DataBatch pyref pyref pyref pyref
  | DataEvent pyval

record notification =
  event_type :: string
  data :: payload

datatype callback = OnDone | OnError

datatype cb_arg = NoArg | ArgValue pyval | ArgExc py_exc

datatype effect =
    Log level string
  | Runtime runtime_call
  | Update observer notification
  | Sleep rat
  | RunInThread string bool
  | RunFn nat
  | After callback nat cb_arg
  | Invoke callback nat cb_arg

section \<open>Stats sampler (\<^verbatim>\<open>docker_utils.py\<close>)\<close>

text \<open>
  \<^verbatim>\<open>calculate_cpu_percent\<close>: the body of the \<^verbatim>\<open>try\<close>, then the handler
  \<^verbatim>\<open>except (KeyError, TypeError): pass\<close> followed by \<^verbatim>\<open>return 0.0\<close>.
\<close>

definition cpu_percent_body :: "pyval \<Rightarrow> py_exc + rat" where
  "cpu_percent_body stats =
     and_then (subscript stats ''cpu_stats'') (\<lambda>cs.
     and_then (subscript cs ''cpu_usage'') (\<lambda>cu.
     and_then (subscript cu ''total_usage'') (\<lambda>cpu_current.
     and_then (subscript stats ''precpu_stats'') (\<lambda>ps.
     and_then (subscript ps ''cpu_usage'') (\<lambda>pu.
     and_then (subscript pu ''total_usage'') (\<lambda>cpu_prev.
     and_then (subscript cs ''system_cpu_usage'') (\<lambda>system_current.
     and_then (subscript ps ''system_cpu_usage'') (\<lambda>system_prev.
     and_then (py_sub cpu_current cpu_prev) (\<lambda>cpu_delta.
     and_then (py_sub system_current system_prev) (\<lambda>system_delta.
     and_then (get_default cs ''online_cpus'' (PNum 1)) (\<lambda>num_cpus.
       if system_delta > 0 \<and> cpu_delta > 0
       then and_then (py_mul_float (cpu_delta / system_delta) num_cpus) (\<lambda>p. Inr (p * 100))
       else Inr 0)))))))))))"

definition calculate_cpu_percent :: "pyval \<Rightarrow> py_exc + rat" where
  "calculate_cpu_percent stats =
     (case cpu_percent_body stats of
        Inr v \<Rightarrow> Inr v
      | Inl KeyError \<Rightarrow> Inr 0
      | Inl TypeError \<Rightarrow> Inr 0
      | Inl e \<Rightarrow> Inl e)"

text \<open>
  \<^verbatim>\<open>calculate_ram_percent\<close>: \<^verbatim>\<open>stats['memory_stats']\<close> is evaluated twice, once
  for each \<^verbatim>\<open>.get\<close>; the handler catches \<^verbatim>\<open>KeyError\<close> and \<^verbatim>\<open>TypeError\<close> only.
\<close>

definition ram_percent_body :: "pyval \<Rightarrow> py_exc + rat" where
  "ram_percent_body stats =
     and_then (subscript stats ''memory_stats'') (\<lambda>ms.
     and_then (get_default ms ''usage'' (PNum 0)) (\<lambda>mem_usage.
     and_then (subscript stats ''memory_stats'') (\<lambda>ms'.
     and_then (get_default ms' ''limit'' (PNum 1)) (\<lambda>mem_limit.
     and_then (py_truediv mem_usage mem_limit) (\<lambda>q. Inr (q * 100))))))"

definition calculate_ram_percent :: "pyval \<Rightarrow> py_exc + rat" where
  "calculate_ram_percent stats =
     (case ram_percent_body stats of
        Inr v \<Rightarrow> Inr v
      | Inl KeyError \<Rightarrow> Inr 0
      | Inl TypeError \<Rightarrow> Inr 0
      | Inl e \<Rightarrow> Inl e)"

text \<open>
  A container handle as the sampler and the scaler read it: \<^verbatim>\<open>short_id\<close>,
  \<^verbatim>\<open>name\<close>, \<^verbatim>\<open>status\<close> and \<^verbatim>\<open>labels\<close> come from the listing, \<^verbatim>\<open>image\<close> is
  looked up when it is read (and the lookup may raise), \<^verbatim>\<open>Config.Cmd\<close> is read from
  \<^verbatim>\<open>attrs\<close>.
\<close>

datatype image_ref =
    ImageNone
  | Image "string list" string
  | ImageRaises

record container =
  short_id :: string
  name :: string
  status :: string
  labels :: "(string \<times> string) list"
  image_attr :: image_ref
  config_cmd :: "string list option"

text \<open>
  The snapshot dictionary with the keys \<^verbatim>\<open>id\<close>, \<^verbatim>\<open>name\<close>, \<^verbatim>\<open>status\<close>, \<^verbatim>\<open>cpu\<close>,
  \<^verbatim>\<open>ram\<close>.  The last two hold a numeral with two decimals, written by
  \<^verbatim>\<open>f"{x:.2f}"\<close> and read back by \<^verbatim>\<open>float(...)\<close>; the model keeps the number
  that the numeral denotes, so \<^verbatim>\<open>'0.00'\<close> is \<open>0\<close>.
\<close>

record snapshot =
  snap_id :: string
  snap_name :: string
  snap_status :: string
  cpu :: rat
  ram :: rat

text \<open>
  Rounding to two decimals (\<^verbatim>\<open>:.2f\<close>).  Python rounds the exact value of the binary
  float to the nearest numeral, ties to the even neighbour.  The model applies the
  same rule to the exact rational that the arithmetic of the model yields.  The two
  agree wherever the float holds that rational exactly, as it does for the integral
  percentages of the scenarios below; they can differ in the last digit where the
  rational lies on a decimal tie that no binary float holds (the float nearest to
  \<open>0.005\<close> is above it and prints as \<^verbatim>\<open>0.01\<close>, and \<open>fmt2 (1 / 200) = 0\<close>).  The
  properties below use the rounding only at integral percentages.
\<close>

definition round_half_even :: "rat \<Rightarrow> int" where
  "round_half_even x =
     (let f = \<lfloor>x\<rfloor>; d = x - of_int f
      in if d < 1 / 2 then f
         else if 1 / 2 < d then f + 1
         else if even f then f else f + 1)"

definition fmt2 :: "rat \<Rightarrow> rat" where
  "fmt2 x = of_int (round_half_even (x * 100)) / 100"

text \<open>
  The runtime's answer to \<^verbatim>\<open>container.stats(stream=False)\<close>: the decoded
  statistics, \<^verbatim>\<open>docker.errors.NotFound\<close>, or any other exception.
\<close>

datatype stats_reply = StatsOk pyval | StatsNotFound | StatsError

definition zero_snapshot :: "container \<Rightarrow> snapshot" where
  "zero_snapshot c =
     \<lparr>snap_id = short_id c, snap_name = name c, snap_status = status c, cpu = 0, ram = 0\<rparr>"

definition unknown_snapshot :: snapshot where
  "unknown_snapshot =
     \<lparr>snap_id = ''unknown'', snap_name = ''unknown'', snap_status = ''error'', cpu = 0, ram = 0\<rparr>"

text \<open>
  \<^verbatim>\<open>get_container_stats\<close>.  The result is the returned value (\<^verbatim>\<open>None\<close> when the
  container has vanished) and the effects.  An exception that escapes one of the two
  percentage functions is caught by \<^verbatim>\<open>except Exception\<close>, whose handler returns
  the basic snapshot; reading the three attributes of a listed container does not
  raise, so the innermost handler is never taken.
\<close>

definition get_container_stats ::
  "(container \<Rightarrow> stats_reply) \<Rightarrow> container option \<Rightarrow> snapshot option \<times> effect list" where
  "get_container_stats fetch copt =
     (case copt of
        None \<Rightarrow>
          (Some unknown_snapshot,
           [Log WARNING ''get_container_stats called with None container''])
      | Some c \<Rightarrow>
          if status c \<noteq> ''running'' then (Some (zero_snapshot c), [])
          else
            (case fetch c of
               StatsNotFound \<Rightarrow>
                 (None,
                  [Runtime (StatsCall (name c)),
                   Log DEBUG ''Container {getattr(container, name, unknown)} not found (likely removed)''])
             | StatsError \<Rightarrow>
                 (Some (zero_snapshot c),
                  [Runtime (StatsCall (name c)),
                   Log DEBUG ''Error getting stats for container {getattr(container, name, unknown)}: {e}''])
             | StatsOk stats \<Rightarrow>
                 (case calculate_cpu_percent stats of
                    Inl e \<Rightarrow>
                      (Some (zero_snapshot c),
                       [Runtime (StatsCall (name c)),
                        Log DEBUG ''Error getting stats for container {getattr(container, name, unknown)}: {e}''])
                  | Inr cpu_v \<Rightarrow>
                      (case calculate_ram_percent stats of
                         Inl e \<Rightarrow>
                           (Some (zero_snapshot c),
                            [Runtime (StatsCall (name c)),
                             Log DEBUG ''Error getting stats for container {getattr(container, name, unknown)}: {e}''])
                       | Inr ram_v \<Rightarrow>
                           (Some \<lparr>snap_id = short_id c, snap_name = name c,
                                  snap_status = status c,
                                  cpu = fmt2 cpu_v, ram = fmt2 ram_v\<rparr>,
                            [Runtime (StatsCall (name c))])))))"

section \<open>Subject and observers (\<^verbatim>\<open>observer.py\<close>)\<close>

text \<open>
  What the \<^verbatim>\<open>update\<close> method of an observer does with a notification is given
  from outside: it returns, or it raises an exception (of a class derived from
  \<^verbatim>\<open>Exception\<close>, as all of \<open>py_exc\<close> are).  The subject's state is the list
  \<^verbatim>\<open>_observers\<close>.  Observers are compared by identity, and an \<^verbatim>\<open>update\<close> that
  itself attaches or detaches observers is not modelled.
\<close>

type_synonym reaction = "observer \<Rightarrow> notification \<Rightarrow> py_exc + unit"

definition attach :: "observer \<Rightarrow> observer list \<Rightarrow> observer list" where
  "attach ob obs = (if ob \<notin> set obs then obs @ [ob] else obs)"

definition detach :: "observer \<Rightarrow> observer list \<Rightarrow> observer list" where
  "detach ob obs = (if ob \<in> set obs then remove1 ob obs else obs)"

text \<open>
  The local function \<^verbatim>\<open>notify_observer\<close>: \<^verbatim>\<open>try: observer.update(...)\<close>, with
  \<^verbatim>\<open>except Exception\<close> turning a raise into the return value \<^verbatim>\<open>observer\<close>.
\<close>

definition notify_observer ::
  "reaction \<Rightarrow> notification \<Rightarrow> observer \<Rightarrow> observer option \<times> effect list" where
  "notify_observer update n ob =
     (case update ob n of
        Inr u \<Rightarrow> (None, [Update ob n])
      | Inl e \<Rightarrow> (Some ob, [Update ob n, Log ERROR ''Error notifying observer {observer.__class__.__name__}: {e}'']))"

text \<open>
  \<^verbatim>\<open>notifyObservers\<close>: notify a copy of the list and collect the observers that
  failed.  When there are any, \<^verbatim>\<open>failed_set = set(failed_observers)\<close> is built,
  outside any \<^verbatim>\<open>try\<close>: with an unhashable member it raises \<^verbatim>\<open>TypeError\<close>,
  which leaves the method before \<^verbatim>\<open>_observers\<close> is rebound.  Otherwise the failed
  observers are removed, with one warning for each member of the set.  The result is
  the observer list afterwards, the effects, and the exception that leaves the
  method, if any.
\<close>

definition notifyObservers ::
  "reaction \<Rightarrow> string \<Rightarrow> payload \<Rightarrow> observer list
     \<Rightarrow> observer list \<times> effect list \<times> py_exc option" where
  "notifyObservers update et d obs =
     (let observers = obs;
          notification_data = \<lparr>event_type = et, data = d\<rparr>;
          results = map (notify_observer update notification_data) observers;
          failed_observers = List.map_filter fst results;
          notified =
            Log DEBUG ''{self.__class__.__name__} notifying {len(observers)} observers of {event_type}''
            # concat (map snd results)
      in if failed_observers \<noteq> []
         then
           (if list_all hashable failed_observers
            then (filter (\<lambda>ob. ob \<notin> set failed_observers) obs,
                  notified
                  @ replicate (length (remdups failed_observers))
                      (Log WARNING ''Removed failing observer {observer.__class__.__name__} after update error''),
                  None)
            else (obs, notified, Some TypeError))
         else (obs, notified, None))"

text \<open>
  \<^verbatim>\<open>set(failed_observers)\<close> can be built when every observer that raised in the pass
  is hashable.
\<close>

definition failures_hashable :: "reaction \<Rightarrow> notification \<Rightarrow> observer list \<Rightarrow> bool" where
  "failures_hashable update n obs = list_all (\<lambda>ob. update ob n = Inr () \<or> hashable ob) obs"

text \<open>The calls of \<^verbatim>\<open>update\<close> among some effects, in order.\<close>

fun updates_of :: "effect list \<Rightarrow> (observer \<times> notification) list" where
  "updates_of [] = []"
| "updates_of (Update ob n # es) = (ob, n) # updates_of es"
| "updates_of (e # es) = updates_of es"

text \<open>
  A run of notification passes, each with its event, its payload and the behaviour of
  the observers during that pass; the result lists the effects of every pass.
\<close>

fun notify_all :: "(reaction \<times> string \<times> payload) list \<Rightarrow> observer list \<Rightarrow> effect list list" where
  "notify_all [] obs = []"
| "notify_all ((update, et, d) # ps) obs =
     fst (snd (notifyObservers update et d obs))
     # notify_all ps (fst (notifyObservers update et d obs))"

definition receivers :: "effect list \<Rightarrow> observer list" where
  "receivers es = map fst (updates_of es)"

definition returns_in :: "observer \<Rightarrow> reaction \<times> string \<times> payload \<Rightarrow> bool" where
  "returns_in ob p =
     (case p of (update, et, d) \<Rightarrow> update ob \<lparr>event_type = et, data = d\<rparr> = Inr ())"

section \<open>Data controller (\<^verbatim>\<open>docker_controller.py\<close>)\<close>

text \<open>
  The four caches hold references; \<^verbatim>\<open>observers\<close> is the list inherited from
  \<^verbatim>\<open>Subject\<close>.  The constructor binds each cache to a new empty list.
\<close>

record controller =
  containers_cache :: pyref
  networks_cache :: pyref
  images_cache :: pyref
  volumes_cache :: pyref
  observers :: "observer list"

definition new_list :: "addr list \<Rightarrow> store \<Rightarrow> addr \<times> store" where
  "new_list elems st =
     (next_addr st,
      st\<lparr>list_objs := (list_objs st)(next_addr st := elems), next_addr := Suc (next_addr st)\<rparr>)"

definition new_dict :: "(string \<times> pyval) list \<Rightarrow> store \<Rightarrow> addr \<times> store" where
  "new_dict kvs st =
     (next_addr st,
      st\<lparr>dict_objs := (dict_objs st)(next_addr st := kvs), next_addr := Suc (next_addr st)\<rparr>)"

definition init_controller :: "store \<Rightarrow> controller \<times> store" where
  "init_controller st =
     (let (c, st1) = new_list [] st;
          (n, st2) = new_list [] st1;
          (i, st3) = new_list [] st2;
          (v, st4) = new_list [] st3
      in (\<lparr>containers_cache = RList c, networks_cache = RList n,
            images_cache = RList i, volumes_cache = RList v, observers = []\<rparr>, st4))"

text \<open>
  The four update methods.  The cache is bound to the caller's list itself (no copy
  is taken), then the observers are notified with that same reference as payload.
  The result is the controller afterwards, the effects, and the exception that
  leaves the method, if any: one raised by \<^verbatim>\<open>notifyObservers\<close> passes through,
  after the cache has been bound.
\<close>

definition update_containers ::
  "reaction \<Rightarrow> pyref \<Rightarrow> controller \<Rightarrow> controller \<times> effect list \<times> py_exc option" where
  "update_containers update containers_data ctl =
     (if containers_data = RNone
      then (ctl, [Log WARNING ''update_containers called with None''], None)
      else if \<not> is_list containers_data
      then (ctl, [Log ERROR ''update_containers expected list, got {type(containers_data)}''], None)
      else
        (let ctl1 = ctl\<lparr>containers_cache := containers_data\<rparr>
         in (case notifyObservers update ''containers_updated'' (DataRef containers_data) (observers ctl1) of
               (obs, es, None) \<Rightarrow>
                 (ctl1\<lparr>observers := obs\<rparr>, es @ [Log DEBUG ''Container data updated: {len(containers_data)} containers''], None)
             | (obs, es, Some e) \<Rightarrow> (ctl1\<lparr>observers := obs\<rparr>, es, Some e))))"

definition update_networks ::
  "reaction \<Rightarrow> pyref \<Rightarrow> controller \<Rightarrow> controller \<times> effect list \<times> py_exc option" where
  "update_networks update networks_data ctl =
     (if networks_data = RNone
      then (ctl, [Log WARNING ''update_networks called with None''], None)
      else if \<not> is_list networks_data
      then (ctl, [Log ERROR ''update_networks expected list, got {type(networks_data)}''], None)
      else
        (let ctl1 = ctl\<lparr>networks_cache := networks_data\<rparr>
         in (case notifyObservers update ''networks_updated'' (DataRef networks_data) (observers ctl1) of
               (obs, es, None) \<Rightarrow>
                 (ctl1\<lparr>observers := obs\<rparr>, es @ [Log DEBUG ''Network data updated: {len(networks_data)} networks''], None)
             | (obs, es, Some e) \<Rightarrow> (ctl1\<lparr>observers := obs\<rparr>, es, Some e))))"

definition update_images ::
  "reaction \<Rightarrow> pyref \<Rightarrow> controller \<Rightarrow> controller \<times> effect list \<times> py_exc option" where
  "update_images update images_data ctl =
     (if images_data = RNone
      then (ctl, [Log WARNING ''update_images called with None''], None)
      else if \<not> is_list images_data
      then (ctl, [Log ERROR ''update_images expected list, got {type(images_data)}''], None)
      else
        (let ctl1 = ctl\<lparr>images_cache := images_data\<rparr>
         in (case notifyObservers update ''images_updated'' (DataRef images_data) (observers ctl1) of
               (obs, es, None) \<Rightarrow>
                 (ctl1\<lparr>observers := obs\<rparr>, es @ [Log DEBUG ''Image data updated: {len(images_data)} images''], None)
             | (obs, es, Some e) \<Rightarrow> (ctl1\<lparr>observers := obs\<rparr>, es, Some e))))"

definition update_volumes ::
  "reaction \<Rightarrow> pyref \<Rightarrow> controller \<Rightarrow> controller \<times> effect list \<times> py_exc option" where
  "update_volumes update volumes_data ctl =
     (if volumes_data = RNone
      then (ctl, [Log WARNING ''update_volumes called with None''], None)
      else if \<not> is_list volumes_data
      then (ctl, [Log ERROR ''update_volumes expected list, got {type(volumes_data)}''], None)
      else
        (let ctl1 = ctl\<lparr>volumes_cache := volumes_data\<rparr>
         in (case notifyObservers update ''volumes_updated'' (DataRef volumes_data) (observers ctl1) of
               (obs, es, None) \<Rightarrow>
                 (ctl1\<lparr>observers := obs\<rparr>, es @ [Log DEBUG ''Volume data updated: {len(volumes_data)} volumes''], None)
             | (obs, es, Some e) \<Rightarrow> (ctl1\<lparr>observers := obs\<rparr>, es, Some e))))"

text \<open>
  \<^verbatim>\<open>cache.copy()\<close>: a list gives a new list object with the same elements, a
  dictionary a new dictionary object with the same entries; the other values have no
  such method.  The getters return that copy.
\<close>

fun py_copy :: "pyref \<Rightarrow> store \<Rightarrow> py_exc + pyref \<times> store" where
  "py_copy (RList a) st = (case new_list (list_objs st a) st of (r, st') \<Rightarrow> Inr (RList r, st'))"
| "py_copy (RDict a) st = (case new_dict (dict_objs st a) st of (r, st') \<Rightarrow> Inr (RDict r, st'))"
| "py_copy _ st = Inl AttributeError"

definition get_containers :: "controller \<Rightarrow> store \<Rightarrow> py_exc + pyref \<times> store" where
  "get_containers ctl st = py_copy (containers_cache ctl) st"

definition get_networks :: "controller \<Rightarrow> store \<Rightarrow> py_exc + pyref \<times> store" where
  "get_networks ctl st = py_copy (networks_cache ctl) st"

definition get_images :: "controller \<Rightarrow> store \<Rightarrow> py_exc + pyref \<times> store" where
  "get_images ctl st = py_copy (images_cache ctl) st"

definition get_volumes :: "controller \<Rightarrow> store \<Rightarrow> py_exc + pyref \<times> store" where
  "get_volumes ctl st = py_copy (volumes_cache ctl) st"

text \<open>
  \<^verbatim>\<open>notify_docker_event\<close>, for an event dictionary (\<^verbatim>\<open>Dict[str, Any]\<close>) given by
  its entries.
\<close>

definition notify_docker_event ::
  "reaction \<Rightarrow> (string \<times> pyval) list \<Rightarrow> controller
     \<Rightarrow> controller \<times> effect list \<times> py_exc option" where
  "notify_docker_event update event ctl =
     (case notifyObservers update ''docker_event'' (DataEvent (PDict event)) (observers ctl) of
        (obs, es, None) \<Rightarrow>
          (ctl\<lparr>observers := obs\<rparr>,
           es @ [Log DEBUG ''Docker event: {event.get(Action)} on {event.get(Type)}''], None)
      | (obs, es, Some e) \<Rightarrow> (ctl\<lparr>observers := obs\<rparr>, es, Some e))"





section \<open>Bounded task runner (\<^verbatim>\<open>worker.py\<close>)\<close>

definition MAX_PENDING :: int where
  "MAX_PENDING = 128"

text \<open>
  The \<^verbatim>\<open>BoundedSemaphore\<close>, by its counter: \<^verbatim>\<open>acquire(blocking=False)\<close> fails at
  zero and decrements otherwise; \<^verbatim>\<open>release()\<close> raises \<^verbatim>\<open>ValueError\<close> when the
  counter would exceed its initial value.
\<close>

definition sem_try_acquire :: "int \<Rightarrow> bool \<times> int" where
  "sem_try_acquire v = (if v = 0 then (False, v) else (True, v - 1))"

definition sem_release :: "int \<Rightarrow> py_exc + int" where
  "sem_release v = (if v + 1 > MAX_PENDING then Inl ValueError else Inr (v + 1))"

text \<open>
  The \<^verbatim>\<open>tk_root\<close> argument: absent, a widget whose \<^verbatim>\<open>after\<close> accepts the call,
  one whose \<^verbatim>\<open>after\<close> raises \<^verbatim>\<open>RuntimeError\<close> (no main loop), or one whose
  \<^verbatim>\<open>after\<close> raises another exception.  A callback, when it is called, returns or
  raises.
\<close>

datatype tk = NoTk | TkOk | TkNoMainloop | TkFails

datatype behaviour = Returns | Raises

definition schedule_callback :: "tk \<Rightarrow> callback \<Rightarrow> behaviour \<Rightarrow> nat \<Rightarrow> cb_arg \<Rightarrow> effect list" where
  "schedule_callback tk_root cb beh t arg =
     (case tk_root of
        TkOk \<Rightarrow> [After cb t arg]
      | TkNoMainloop \<Rightarrow>
          [Log WARNING ''Tk mainloop not available; invoking callback synchronously'',
           Invoke cb t arg]
          @ (if beh = Raises
             then [Log ERROR ''Error invoking callback synchronously after tk mainloop unavailable'']
             else [])
      | TkFails \<Rightarrow> [Log ERROR ''Error scheduling callback'']
      | NoTk \<Rightarrow>
          Invoke cb t arg
          # (if beh = Raises then [Log ERROR ''Error scheduling callback''] else []))"

text \<open>
  A submission: the function \<^verbatim>\<open>fn\<close> (known by a number), the two optional
  callbacks, \<^verbatim>\<open>tk_root\<close> and \<^verbatim>\<open>block\<close>.  The runner's state is the semaphore
  counter, the callers that hold a permit and have not yet reached
  \<^verbatim>\<open>_executor.submit\<close>, and the tasks that the executor has accepted and whose
  \<^verbatim>\<open>finally\<close> clause has not yet run.
\<close>

record request =
  task :: nat
  on_done :: "behaviour option"
  on_error :: "behaviour option"
  tk_root :: tk
  block :: bool

record pool =
  sem_value :: int
  holding :: "request list"
  queue :: "request list"

definition init_pool :: pool where
  "init_pool = \<lparr>sem_value = MAX_PENDING, holding = [], queue = []\<rparr>"

definition pending :: "pool \<Rightarrow> int" where
  "pending p = MAX_PENDING - sem_value p"

definition call_on_error :: "request \<Rightarrow> py_exc \<Rightarrow> effect list" where
  "call_on_error req e =
     (case on_error req of
        None \<Rightarrow> []
      | Some beh \<Rightarrow> schedule_callback (tk_root req) OnError beh (task req) (ArgExc e))"

text \<open>
  The first part of \<^verbatim>\<open>run_in_thread\<close>, up to the return for a saturated queue.
  The result is \<open>None\<close> while a blocking \<^verbatim>\<open>acquire()\<close> waits for a permit;
  otherwise the new state, the effects, and whether the permit was acquired.  (The
  semaphore's \<^verbatim>\<open>acquire\<close> does not raise, so the handler around it is never
  taken.)
\<close>

definition acquire_permit :: "request \<Rightarrow> pool \<Rightarrow> (pool \<times> effect list \<times> bool) option" where
  "acquire_permit req p =
     (if block req \<and> sem_value p = 0 then None
      else
        (case sem_try_acquire (sem_value p) of
           (False, v) \<Rightarrow>
             Some (p,
                   Log WARNING ''Background task queue is full; dropping task''
                   # call_on_error req TaskQueueFull,
                   False)
         | (True, v) \<Rightarrow> Some (p\<lparr>sem_value := v, holding := holding p @ [req]\<rparr>, [], True)))"

text \<open>
  The second part, for the \<open>i\<close>-th caller that holds a permit.  \<open>submit\<close> is what
  \<^verbatim>\<open>_executor.submit\<close> does: accept the task, or raise, in which case the permit
  is released and the failure callback receives the exception.  The result is the
  new state, the effects and whether a future is returned.
\<close>

definition submit_task ::
  "py_exc option \<Rightarrow> nat \<Rightarrow> pool \<Rightarrow> (pool \<times> effect list \<times> bool) option" where
  "submit_task submit i p =
     (if i < length (holding p)
      then
        (let req = holding p ! i;
             p1 = p\<lparr>holding := take i (holding p) @ drop (Suc i) (holding p)\<rparr>
         in (case submit of
               None \<Rightarrow> Some (p1\<lparr>queue := queue p1 @ [req]\<rparr>, [], True)
             | Some e \<Rightarrow>
                 Some (p1\<lparr>sem_value :=
                            (case sem_release (sem_value p1) of Inr v' \<Rightarrow> v' | Inl x \<Rightarrow> sem_value p1)\<rparr>,
                       Log ERROR ''Failed to submit background task'' # call_on_error req e,
                       False)))
      else None)"

text \<open>\<^verbatim>\<open>run_in_thread\<close> as a whole: the two parts one after the other.\<close>

definition run_in_thread ::
  "py_exc option \<Rightarrow> request \<Rightarrow> pool \<Rightarrow> (pool \<times> effect list \<times> bool) option" where
  "run_in_thread submit req p =
     (case acquire_permit req p of
        None \<Rightarrow> None
      | Some (p1, es, acquired) \<Rightarrow>
          if \<not> acquired then Some (p1, es, False)
          else
            (case submit_task submit (length (holding p)) p1 of
               None \<Rightarrow> None
             | Some (p2, es2, fut) \<Rightarrow> Some (p2, es @ es2, fut)))"

text \<open>
  The closure \<^verbatim>\<open>_task\<close>, run by a worker: call \<^verbatim>\<open>fn\<close>, deliver the result or
  the exception, and in the \<^verbatim>\<open>finally\<close> clause release the permit.
\<close>

datatype fn_outcome = FnReturns pyval | FnRaises py_exc

fun result_arg :: "pyval \<Rightarrow> cb_arg" where
  "result_arg PNone = NoArg"
| "result_arg v = ArgValue v"

definition task_body :: "request \<Rightarrow> fn_outcome \<Rightarrow> pool \<Rightarrow> pool \<times> effect list" where
  "task_body req out p =
     (let es = RunFn (task req)
               # (case out of
                    FnReturns result \<Rightarrow>
                      (case on_done req of
                         None \<Rightarrow> []
                       | Some beh \<Rightarrow>
                           schedule_callback (tk_root req) OnDone beh (task req) (result_arg result))
                  | FnRaises e \<Rightarrow> Log ERROR ''Error in background task'' # call_on_error req e)
      in (case sem_release (sem_value p) of
            Inr v' \<Rightarrow> (p\<lparr>sem_value := v'\<rparr>, es)
          | Inl x \<Rightarrow> (p, es @ [Log ERROR ''Error releasing pending semaphore''])))"

text \<open>A worker finishes the \<open>i\<close>-th task that the executor holds.\<close>

definition complete_task :: "nat \<Rightarrow> fn_outcome \<Rightarrow> pool \<Rightarrow> (pool \<times> effect list) option" where
  "complete_task i out p =
     (if i < length (queue p)
      then Some (task_body (queue p ! i) out (p\<lparr>queue := take i (queue p) @ drop (Suc i) (queue p)\<rparr>))
      else None)"

text \<open>
  Interleavings of callers and workers are sequences of steps: a caller runs the
  first part of \<^verbatim>\<open>run_in_thread\<close>, a caller that holds a permit runs the second
  part, a caller runs the whole of \<^verbatim>\<open>run_in_thread\<close> undisturbed, or a worker
  finishes an accepted task.  A step that cannot be taken (a blocked caller, no such
  caller or task) leaves the state as it is.
\<close>

datatype pool_event =
    Acquire request
  | SubmitStep "py_exc option" nat
  | Submit "py_exc option" request
  | Complete nat fn_outcome

fun step :: "pool_event \<Rightarrow> pool \<Rightarrow> pool \<times> effect list" where
  "step (Acquire req) p =
     (case acquire_permit req p of None \<Rightarrow> (p, []) | Some (p', es, acquired) \<Rightarrow> (p', es))"
| "step (SubmitStep submit i) p =
     (case submit_task submit i p of None \<Rightarrow> (p, []) | Some (p', es, fut) \<Rightarrow> (p', es))"
| "step (Submit submit req) p =
     (case run_in_thread submit req p of None \<Rightarrow> (p, []) | Some (p', es, fut) \<Rightarrow> (p', es))"
| "step (Complete i out) p =
     (case complete_task i out p of None \<Rightarrow> (p, []) | Some (p', es) \<Rightarrow> (p', es))"

fun exec :: "pool_event list \<Rightarrow> pool \<Rightarrow> pool \<times> effect list" where
  "exec [] p = (p, [])"
| "exec (ev # evs) p =
     (case step ev p of (p', es) \<Rightarrow> (case exec evs p' of (p'', es') \<Rightarrow> (p'', es @ es')))"

text \<open>
  The invariant of the runner: the counter is not negative, and every permit that is
  missing from it is held by a caller or by an accepted task.
\<close>

definition pool_inv :: "pool \<Rightarrow> bool" where
  "pool_inv p =
     (0 \<le> sem_value p
      \<and> sem_value p + int (length (holding p)) + int (length (queue p)) = MAX_PENDING)"

section \<open>Auto-scaler and polling loop (\<^verbatim>\<open>docker_utils.py\<close>)\<close>

text \<open>
  The module-level tunables.  They can be rebound by the GUI while the loop runs,
  so the functions below receive the values that are current when they read them.
\<close>

record config =
  CPU_LIMIT :: rat
  RAM_LIMIT :: rat
  CLONE_NUM :: int
  AUTO_SCALE_ENABLED :: bool
  CONFIG_VERSION :: int

definition default_config :: config where
  "default_config =
     \<lparr>CPU_LIMIT = 50, RAM_LIMIT = 5, CLONE_NUM = 2, AUTO_SCALE_ENABLED = True,
      CONFIG_VERSION = 0\<rparr>"

definition APP_CONTAINER_NAME_PREFIX :: string where
  "APP_CONTAINER_NAME_PREFIX = ''dmm-''"

definition APP_CREATED_BY_LABEL :: string where
  "APP_CREATED_BY_LABEL = ''docker-monitor-manager''"

text \<open>
  The container runtime, by its answers: the listing, the statistics of a container,
  whether \<^verbatim>\<open>pause\<close>, \<^verbatim>\<open>stop\<close> and \<^verbatim>\<open>remove\<close> raise, what
  \<^verbatim>\<open>client.containers.run\<close> does for a clone name, and the eight hexadecimal digits
  that \<^verbatim>\<open>uuid.uuid4().hex[:8]\<close> yields.
\<close>

record runtime =
  list_reply :: "py_exc + container list"
  stats_of :: "container \<Rightarrow> stats_reply"
  pause_reply :: "container \<Rightarrow> py_exc option"
  stop_reply :: "container \<Rightarrow> py_exc option"
  remove_reply :: "container \<Rightarrow> py_exc option"
  run_reply :: "string \<Rightarrow> py_exc + string"
  uuid_hex8 :: string

definition is_clone_container :: "container option \<Rightarrow> bool" where
  "is_clone_container copt =
     (case copt of
        None \<Rightarrow> False
      | Some c \<Rightarrow>
          map_of (labels c) ''dmm.is_clone'' = Some ''true''
          \<and> map_of (labels c) ''dmm.parent_container'' \<noteq> None)"

definition get_parent_container_name :: "container option \<Rightarrow> string" where
  "get_parent_container_name copt =
     (case copt of
        None \<Rightarrow> ''''
      | Some c \<Rightarrow> (case map_of (labels c) ''dmm.parent_container'' of None \<Rightarrow> '''' | Some p \<Rightarrow> p))"

text \<open>
  The comprehension \<^verbatim>\<open>existing_clones\<close>, shared by the two functions below.  Every
  container of the model has a \<^verbatim>\<open>name\<close>, so their \<^verbatim>\<open>except AttributeError\<close>
  returns are never taken.
\<close>

definition existing_clones :: "string \<Rightarrow> container list \<Rightarrow> container list" where
  "existing_clones container_name all_containers =
     filter (\<lambda>c. is_clone_container (Some c) \<and> get_parent_container_name (Some c) = container_name)
       all_containers"

text \<open>\<^verbatim>\<open>docker.errors.NotFound\<close> is a subclass of \<^verbatim>\<open>docker.errors.APIError\<close>.\<close>

definition is_api_error :: "py_exc \<Rightarrow> bool" where
  "is_api_error e = (e = APIError \<or> e = NotFound)"

definition delete_clone :: "runtime \<Rightarrow> container \<Rightarrow> effect list" where
  "delete_clone rt clone =
     (let failed = (\<lambda>e. if e = NotFound
                        then [Log DEBUG ''Clone container {getattr(clone, name, unknown)} already removed'']
                        else [Log ERROR ''Failed to delete clone container {getattr(clone, name, unknown)}: {e}''])
      in Runtime (StopCall (name clone) 10)
         # (case stop_reply rt clone of
              Some e \<Rightarrow> failed e
            | None \<Rightarrow>
                Runtime (RemoveCall (name clone))
                # (case remove_reply rt clone of
                     Some e \<Rightarrow> failed e
                   | None \<Rightarrow> [Log INFO ''Deleted clone container {clone.name}.''])))"

definition delete_clones :: "runtime \<Rightarrow> container option \<Rightarrow> container list option \<Rightarrow> effect list" where
  "delete_clones rt copt allopt =
     (case (copt, allopt) of
        (Some container, Some all_containers) \<Rightarrow>
          concat (map (delete_clone rt) (existing_clones (name container) all_containers))
      | _ \<Rightarrow> [Log WARNING ''delete_clones called with None parameter''])"

text \<open>
  The image for a clone: the first tag when the image has tags, else its id; \<^verbatim>\<open>None\<close>
  when the container has no image.  When reading \<^verbatim>\<open>container.image\<close> raises, it
  raises again inside the handler, and the exception reaches the outer
  \<^verbatim>\<open>except Exception\<close> of the creation block.
\<close>

fun select_image :: "image_ref \<Rightarrow> py_exc + string option" where
  "select_image (Image (t # ts) iid) = Inr (Some t)"
| "select_image (Image [] iid) = Inr (Some iid)"
| "select_image ImageNone = Inr None"
| "select_image ImageRaises = Inl NotFound"

definition clone_labels :: "string \<Rightarrow> (string \<times> string) list" where
  "clone_labels container_name =
     [(''dmm.is_clone'', ''true''),
      (''dmm.parent_container'', container_name),
      (''dmm.created_by'', APP_CREATED_BY_LABEL)]"

definition create_clone :: "runtime \<Rightarrow> config \<Rightarrow> container \<Rightarrow> container list \<Rightarrow> effect list" where
  "create_clone rt cfg container all_containers =
     (let container_name = name container;
          clones_to_create =
            max 0 (CLONE_NUM cfg - int (length (existing_clones container_name all_containers)))
      in if clones_to_create \<le> 0
         then [Log INFO ''No clones needed for {container_name} (already at max).'']
         else
           (case select_image (image_attr container) of
              Inl e \<Rightarrow>
                [Log ERROR ''Unexpected error during clone creation for {container_name}: {e}'']
            | Inr img \<Rightarrow>
                (let clone_name = container_name @ ''-clone-'' @ uuid_hex8 rt
                 in Runtime (RunCall img (config_cmd container) clone_name
                              (clone_labels container_name))
                    # (case run_reply rt clone_name of
                         Inr new_name \<Rightarrow>
                           [Log INFO ''Created clone container {getattr(new_container, name, unknown)} for parent {container_name}.'']
                       | Inl e \<Rightarrow>
                           if is_api_error e
                           then [Log ERROR ''Docker API error creating clone for {container_name}: {e}'']
                           else [Log ERROR ''Failed to create clone for {container_name}: {e}'']))))"

text \<open>
  \<^verbatim>\<open>scale_container\<close>: the at-capacity branch comes first, then the test of
  \<^verbatim>\<open>AUTO_SCALE_ENABLED\<close>, then the creation of one clone.
\<close>

definition scale_container ::
  "runtime \<Rightarrow> config \<Rightarrow> container option \<Rightarrow> container list option \<Rightarrow> effect list" where
  "scale_container rt cfg copt allopt =
     (case (copt, allopt) of
        (Some container, Some all_containers) \<Rightarrow>
          if int (length (existing_clones (name container) all_containers)) \<ge> CLONE_NUM cfg
          then
            Log INFO ''Max clones reached for {container_name}. Pausing original and deleting clones.''
            # Runtime (PauseCall (name container))
            # (case pause_reply rt container of
                 None \<Rightarrow> [Log INFO ''Paused original container {container_name}.'']
               | Some e \<Rightarrow>
                   if is_api_error e
                   then [Log ERROR ''Failed to pause original container {container_name}: {e}'']
                   else [Log ERROR ''Unexpected error pausing container {container_name}: {e}''])
            @ delete_clones rt copt allopt
          else if \<not> AUTO_SCALE_ENABLED cfg
          then [Log INFO ''Auto-scaling is disabled; skipping clone creation for {container_name}'']
          else create_clone rt cfg container all_containers
      | _ \<Rightarrow> [Log WARNING ''scale_container called with None parameter''])"

text \<open>
  One iteration of \<^verbatim>\<open>monitor_thread\<close>, up to the point where the snapshot list is
  handed to the controller.  \<open>cfg\<close> holds the tunables as the detection loop reads
  them, \<open>cur\<close> as the handling loop and \<^verbatim>\<open>scale_container\<close> read them afterwards.
\<close>

definition is_overloaded :: "config \<Rightarrow> snapshot \<Rightarrow> bool" where
  "is_overloaded cfg stats = (cpu stats > CPU_LIMIT cfg \<or> ram stats > RAM_LIMIT cfg)"

definition running_overloaded ::
  "config \<Rightarrow> (container \<times> snapshot option) list \<Rightarrow> (container \<times> snapshot) list" where
  "running_overloaded cfg container_stats_pairs =
     List.map_filter
       (\<lambda>(container, sopt).
          case sopt of
            None \<Rightarrow> None
          | Some stats \<Rightarrow>
              if status container \<noteq> ''running'' \<or> is_clone_container (Some container) then None
              else if is_overloaded cfg stats then Some (container, stats)
              else None)
       container_stats_pairs"

definition handle_overloaded ::
  "runtime \<Rightarrow> config \<Rightarrow> int \<Rightarrow> container list \<Rightarrow> container \<times> snapshot \<Rightarrow> effect list" where
  "handle_overloaded rt cur observed_config_version all_containers p =
     (case p of (container, stats) \<Rightarrow>
        if \<not> AUTO_SCALE_ENABLED cur
        then [Log INFO ''Auto-scaling disabled during handling; skipping scaling for {container.name}'']
        else
          Log INFO ''Container %s overloaded (CPU: %s%%, RAM: %s%%). Scaling...''
          # (if CONFIG_VERSION cur \<noteq> observed_config_version
             then [Log INFO ''Configuration changed during handling; skipping scaling for {container.name}'']
             else scale_container rt cur (Some container) (Some all_containers)))"

definition autoscale_pass ::
  "runtime \<Rightarrow> config \<Rightarrow> config \<Rightarrow> container list \<Rightarrow> (container \<times> snapshot option) list
     \<Rightarrow> effect list" where
  "autoscale_pass rt cfg cur all_containers container_stats_pairs =
     (if AUTO_SCALE_ENABLED cfg
      then concat (map (handle_overloaded rt cur (CONFIG_VERSION cfg) all_containers)
                     (running_overloaded cfg container_stats_pairs))
      else [])"

definition monitor_iteration ::
  "runtime \<Rightarrow> config \<Rightarrow> config \<Rightarrow> effect list \<times> snapshot list option" where
  "monitor_iteration rt cfg cur =
     (case list_reply rt of
        Inl e \<Rightarrow> ([Log ERROR ''Error in monitor loop: {e}''], None)
      | Inr all_containers \<Rightarrow>
          (let sampled = map (\<lambda>c. (c, get_container_stats (stats_of rt) (Some c))) all_containers;
               container_stats_pairs = map (\<lambda>(c, r). (c, fst r)) sampled;
               stats_payload = List.map_filter (\<lambda>(c, r). fst r) sampled
           in (concat (map (\<lambda>(c, r). snd r) sampled)
               @ autoscale_pass rt cfg cur all_containers container_stats_pairs,
               Some stats_payload)))"

text \<open>The calls to the runtime among some effects.\<close>

fun runtime_calls :: "effect list \<Rightarrow> runtime_call list" where
  "runtime_calls [] = []"
| "runtime_calls (Runtime c # es) = c # runtime_calls es"
| "runtime_calls (e # es) = runtime_calls es"

section \<open>Event listener (\<^verbatim>\<open>docker_utils.py\<close>)\<close>

definition relevant_events :: "string list" where
  "relevant_events =
     [''create'', ''start'', ''stop'', ''die'', ''destroy'', ''pause'', ''unpause'', ''kill'',
      ''restart'']"

definition MIN_REFRESH_INTERVAL :: rat where
  "MIN_REFRESH_INTERVAL = 1 / 2"

definition startswith :: "string \<Rightarrow> string \<Rightarrow> bool" where
  "startswith s p = (take (length p) s = p)"

text \<open>
  The filters of the loop body.  \<open>is_relevant\<close> is the first test; \<open>is_app_container\<close>
  computes the flag of the same name from the actor's attributes, and raises
  \<^verbatim>\<open>AttributeError\<close> when \<^verbatim>\<open>Actor\<close> or its \<^verbatim>\<open>Attributes\<close> is not a dictionary.
\<close>

definition is_relevant :: "pyval \<Rightarrow> py_exc + bool" where
  "is_relevant event =
     and_then (get_default event ''Type'' PNone) (\<lambda>ty.
     and_then (get_default event ''Action'' PNone) (\<lambda>action.
       Inr (\<not> (ty \<noteq> PStr ''container'' \<or> action \<notin> set (map PStr relevant_events)))))"

definition is_app_container :: "pyval \<Rightarrow> py_exc + bool" where
  "is_app_container event =
     and_then (get_default event ''Actor'' (PDict [])) (\<lambda>actor.
     and_then (get_default actor ''Attributes'' (PDict [])) (\<lambda>a.
     (let attrs = (if truthy a then a else PDict [])
      in and_then (get_default attrs ''name'' (PStr ''unknown'')) (\<lambda>container_name.
         and_then (get_default attrs ''dmm.created_by'' PNone) (\<lambda>created_by.
           Inr (created_by = PStr APP_CREATED_BY_LABEL
                \<or> (case container_name of
                      PStr n \<Rightarrow> startswith n APP_CONTAINER_NAME_PREFIX
                    | _ \<Rightarrow> False)))))))"

text \<open>
  The listener's own state is \<^verbatim>\<open>last_refresh_time\<close>; it also drives the controller.
  \<open>event_body\<close> is the body of the inner \<^verbatim>\<open>try\<close> for one event read at clock time
  \<open>now\<close>: the state afterwards, the effects, and the exception that leaves the body,
  if any.  \<^verbatim>\<open>controller.notify_docker_event(event)\<close> is called before the debounce
  test, so an exception it raises leaves the body before \<^verbatim>\<open>last_refresh_time\<close> is read.
  The refresh itself is the closure \<^verbatim>\<open>_fetch_and_notify\<close> handed to \<^verbatim>\<open>run_in_thread\<close>
  with \<^verbatim>\<open>block=False\<close>.  \<open>handle_event\<close> adds the handler \<^verbatim>\<open>except Exception\<close>, which
  logs and goes on to the next event.
\<close>

record listener =
  last_refresh_time :: rat

definition event_body ::
  "reaction \<Rightarrow> rat \<Rightarrow> pyval \<Rightarrow> listener \<times> controller
     \<Rightarrow> (listener \<times> controller) \<times> effect list \<times> py_exc option" where
  "event_body update now event s =
     (case is_relevant event of
        Inl e \<Rightarrow> (s, [], Some e)
      | Inr relevant \<Rightarrow>
          if \<not> relevant then (s, [], None)
          else
            (case is_app_container event of
               Inl e \<Rightarrow> (s, [], Some e)
             | Inr app \<Rightarrow>
                 if \<not> app
                 then (s, [Log DEBUG ''External Docker event ignored: {event_action} on {container_name}''], None)
                 else
                   (case (event, s) of
                      (PDict entries, (lst, ctl)) \<Rightarrow>
                        (case notify_docker_event update entries ctl of
                           (ctl', es, Some e) \<Rightarrow>
                             ((lst, ctl'),
                              Log INFO ''Docker event detected: {event_action} on container {container_name}'' # es,
                              Some e)
                         | (ctl', es, None) \<Rightarrow>
                             (let seen = Log INFO ''Docker event detected: {event_action} on container {container_name}''
                                         # es
                              in if now - last_refresh_time lst < MIN_REFRESH_INTERVAL
                                 then ((lst, ctl'),
                                       seen @ [Log DEBUG ''Skipping refresh due to debounce (last refresh {current_time - last_refresh_time:.2f}s ago)''],
                                       None)
                                 else ((lst\<lparr>last_refresh_time := now\<rparr>, ctl'),
                                       seen
                                       @ (if map_of entries ''Action'' = Some (PStr ''create'')
                                             \<or> map_of entries ''Action'' = Some (PStr ''start'')
                                          then [Sleep (1 / 10)] else [])
                                       @ [RunInThread ''_fetch_and_notify'' False],
                                       None)))
                    | _ \<Rightarrow> (s, [], Some AttributeError))))"

definition handle_event ::
  "reaction \<Rightarrow> rat \<Rightarrow> pyval \<Rightarrow> listener \<times> controller \<Rightarrow> (listener \<times> controller) \<times> effect list" where
  "handle_event update now event s =
     (case event_body update now event s of
        (s', es, None) \<Rightarrow> (s', es)
      | (s', es, Some e) \<Rightarrow> (s', es @ [Log ERROR ''Error handling event: {e}'']))"


definition init_listener :: listener where
  "init_listener = \<lparr>last_refresh_time = 0\<rparr>"


text \<open>An event that passes both filters.\<close>

definition qualifying :: "pyval \<Rightarrow> bool" where
  "qualifying event = (is_relevant event = Inr True \<and> is_app_container event = Inr True)"

section \<open>Concrete scenarios\<close>

text \<open>
  An observer population in which the hashable observer \<open>2\<close> raises on every
  notification and all others return, and one in which the unhashable observer \<open>2\<close>
  does.
\<close>

definition second_raises :: reaction where
  "second_raises ob n = (if ob = Hashable 2 then Inl RuntimeError else Inr ())"

definition unhashable_raises :: reaction where
  "unhashable_raises ob n = (if ob = Unhashable 2 then Inl RuntimeError else Inr ())"

definition all_return :: reaction where
  "all_return ob n = Inr ()"

text \<open>
  A store with one list at address \<open>0\<close>, whose single element is the dictionary
  \<^verbatim>\<open>{'id': 'a'}\<close> at address \<open>1\<close>, and a controller with two observers.
\<close>

definition store0 :: store where
  "store0 =
     \<lparr>list_objs = (\<lambda>a. [])(0 := [1]),
      dict_objs = (\<lambda>a. [])(1 := [(''id'', PStr ''a'')]),
      next_addr = 2\<rparr>"

definition controller0 :: controller where
  "controller0 =
     \<lparr>containers_cache = RList 7, networks_cache = RList 8, images_cache = RList 9,
      volumes_cache = RList 10, observers = [Hashable 1, Hashable 2]\<rparr>"

text \<open>
  A non-blocking submission with a failure callback and no \<^verbatim>\<open>tk_root\<close>, and the
  interleaving in which \<^verbatim>\<open>_MAX_PENDING\<close> such submissions are accepted before any
  task finishes.
\<close>

definition request0 :: request where
  "request0 = \<lparr>task = 7, on_done = None, on_error = Some Returns, tk_root = NoTk, block = False\<rparr>"


definition one_submission :: "pool_event list" where
  "one_submission = [Submit None request0]"

definition one_holder :: "pool_event list" where
  "one_holder = [Acquire request0]"

definition saturating :: "pool_event list" where
  "saturating = replicate 128 (Submit None request0)"

text \<open>
  A parent container \<^verbatim>\<open>web\<close> with two clones, and two runtimes that differ in the
  statistics they report: under \<open>rt_idle\<close> every container uses 10\% CPU and 1\% RAM,
  under \<open>rt_busy\<close> 80\% CPU and 1\% RAM.  In both, every runtime command succeeds.
\<close>

definition web :: container where
  "web = \<lparr>short_id = ''aaa'', name = ''web'', status = ''running'', labels = [],
          image_attr = Image [''nginx:latest''] ''sha256:1'', config_cmd = None\<rparr>"

definition clone1 :: container where
  "clone1 = \<lparr>short_id = ''bbb'', name = ''web-clone-1'', status = ''running'',
             labels = clone_labels ''web'',
             image_attr = Image [''nginx:latest''] ''sha256:1'', config_cmd = None\<rparr>"

definition clone2 :: container where
  "clone2 = \<lparr>short_id = ''ccc'', name = ''web-clone-2'', status = ''running'',
             labels = clone_labels ''web'',
             image_attr = Image [''nginx:latest''] ''sha256:1'', config_cmd = None\<rparr>"

definition fleet :: "container list" where
  "fleet = [web, clone1, clone2]"

definition stats_with_cpu :: "rat \<Rightarrow> pyval" where
  "stats_with_cpu usage_now =
     PDict
       [(''cpu_stats'',
           PDict [(''cpu_usage'', PDict [(''total_usage'', PNum usage_now)]),
                  (''system_cpu_usage'', PNum 2000),
                  (''online_cpus'', PNum 1)]),
        (''precpu_stats'',
           PDict [(''cpu_usage'', PDict [(''total_usage'', PNum 100)]),
                  (''system_cpu_usage'', PNum 1000)]),
        (''memory_stats'', PDict [(''usage'', PNum 1), (''limit'', PNum 100)])]"

definition rt_with :: "pyval \<Rightarrow> runtime" where
  "rt_with stats =
     \<lparr>list_reply = Inr fleet,
      stats_of = (\<lambda>c. StatsOk stats),
      pause_reply = (\<lambda>c. None),
      stop_reply = (\<lambda>c. None),
      remove_reply = (\<lambda>c. None),
      run_reply = (\<lambda>n. Inr n),
      uuid_hex8 = ''0123abcd''\<rparr>"


definition rt_busy :: runtime where
  "rt_busy = rt_with (stats_with_cpu 900)"

definition disabled_config :: config where
  "disabled_config = default_config\<lparr>AUTO_SCALE_ENABLED := False\<rparr>"

text \<open>The sampled pairs of the three containers at a given CPU percentage.\<close>

definition pairs_at :: "rat \<Rightarrow> (container \<times> snapshot option) list" where
  "pairs_at cpu_v =
     map (\<lambda>c. (c, Some \<lparr>snap_id = short_id c, snap_name = name c, snap_status = status c,
                          cpu = cpu_v, ram = 1\<rparr>))
       fleet"






text \<open>
  Two lifecycle events of the app-owned container \<^verbatim>\<open>dmm-web\<close>, and a listener whose
  last refresh was at clock time \<open>1000\<close>.
\<close>

definition event_of :: "string \<Rightarrow> pyval" where
  "event_of action =
     PDict [(''Type'', PStr ''container''),
            (''Action'', PStr action),
            (''Actor'', PDict [(''Attributes'', PDict [(''name'', PStr ''dmm-web'')])])]"

definition listener0 :: listener where
  "listener0 = \<lparr>last_refresh_time = 1000\<rparr>"

section \<open>Properties of the stats sampler\<close>

lemma ram_percent_body_numeric:
  assumes "map_of kvs ''memory_stats'' = Some (PDict ms)"
    and "map_of ms ''usage'' = Some (PNum u)"
    and "map_of ms ''limit'' = Some (PNum l)"
  shows "ram_percent_body (PDict kvs) =
           (if l = 0 then Inl ZeroDivisionError else Inr (u / l * 100))"
  using assms by (simp add: ram_percent_body_def and_then_def py_truediv_def)

lemma calculate_ram_percent_numeric:
  assumes "map_of kvs ''memory_stats'' = Some (PDict ms)"
    and "map_of ms ''usage'' = Some (PNum u)"
    and "map_of ms ''limit'' = Some (PNum l)"
    and "l \<noteq> 0"
  shows "calculate_ram_percent (PDict kvs) = Inr (u / l * 100)"
  using assms by (simp add: calculate_ram_percent_def ram_percent_body_numeric)

lemma calculate_ram_percent_no_memory_stats:
  "map_of kvs ''memory_stats'' = None \<Longrightarrow> calculate_ram_percent (PDict kvs) = Inr 0"
  by (simp add: calculate_ram_percent_def ram_percent_body_def and_then_def)

lemma calculate_ram_percent_missing_limit:
  "calculate_ram_percent (PDict [(''memory_stats'', PDict [(''usage'', PNum 5)])]) = Inr 500"
  by (simp add: calculate_ram_percent_def ram_percent_body_def and_then_def py_truediv_def)

lemma calculate_ram_percent_memory_stats_none:
  "calculate_ram_percent (PDict [(''memory_stats'', PNone)]) = Inl AttributeError"
  by (simp add: calculate_ram_percent_def ram_percent_body_def and_then_def)

text \<open>
  C5.  The claim: for every stats input the RAM percentage is \<open>usage / limit * 100\<close>,
  malformed or missing memory fields give \<open>0\<close>, and no exception is ever raised.
  On the statistics \<^verbatim>\<open>{'memory_stats': {'usage': 1, 'limit': 0}}\<close> the division
  raises \<^verbatim>\<open>ZeroDivisionError\<close>, which the handler for \<^verbatim>\<open>KeyError\<close> and
  \<^verbatim>\<open>TypeError\<close> lets through: the function raises instead of returning \<open>0\<close>.
\<close>

theorem calculate_ram_percent_zero_limit_raises:
  "calculate_ram_percent
     (PDict [(''memory_stats'', PDict [(''usage'', PNum 1), (''limit'', PNum 0)])])
   = Inl ZeroDivisionError"
  by (simp add: calculate_ram_percent_def ram_percent_body_def and_then_def py_truediv_def)

text \<open>
  C9.  For every container whose status is not \<^verbatim>\<open>running\<close>, sampling returns the
  snapshot with cpu \<open>0\<close>, ram \<open>0\<close> and the container's own status, and has no
  effect at all: in particular it makes no stats call to the runtime, whatever the
  runtime would have answered.
\<close>

theorem get_container_stats_not_running:
  assumes "status c \<noteq> ''running''"
  shows "get_container_stats fetch (Some c) =
           (Some \<lparr>snap_id = short_id c, snap_name = name c, snap_status = status c,
                   cpu = 0, ram = 0\<rparr>, [])"
  using assms by (simp add: get_container_stats_def zero_snapshot_def)

theorem get_container_stats_not_running_witness:
  "''exited'' \<noteq> ''running''
   \<and> get_container_stats (\<lambda>c. StatsError)
       (Some \<lparr>short_id = ''abc'', name = ''web'', status = ''exited'', labels = [],
               image_attr = ImageNone, config_cmd = None\<rparr>)
     = (Some \<lparr>snap_id = ''abc'', snap_name = ''web'', snap_status = ''exited'',
               cpu = 0, ram = 0\<rparr>, [])"
  using get_container_stats_not_running
    [of "\<lparr>short_id = ''abc'', name = ''web'', status = ''exited'', labels = [],
          image_attr = ImageNone, config_cmd = None\<rparr>" "\<lambda>c. StatsError"]
  by simp

section \<open>Properties of the subject\<close>

lemma updates_of_append: "updates_of (xs @ ys) = updates_of xs @ updates_of ys"
  by (induction xs rule: updates_of.induct) simp_all

lemma updates_of_replicate_log: "updates_of (replicate k (Log l m)) = []"
  by (induction k) simp_all

lemma updates_of_notify_observer: "updates_of (snd (notify_observer update n ob)) = [(ob, n)]"
  by (simp add: notify_observer_def split: sum.splits)

lemma updates_of_results:
  "updates_of (concat (map (snd \<circ> notify_observer update n) obs)) = map (\<lambda>ob. (ob, n)) obs"
  by (induction obs) (simp_all add: updates_of_append updates_of_notify_observer)

lemma updates_of_notifyObservers:
  "updates_of (fst (snd (notifyObservers update et d obs))) =
     map (\<lambda>ob. (ob, \<lparr>event_type = et, data = d\<rparr>)) obs"
  by (simp add: notifyObservers_def Let_def updates_of_append updates_of_results
      updates_of_replicate_log)

lemma receivers_notifyObservers: "receivers (fst (snd (notifyObservers update et d obs))) = obs"
  by (simp add: receivers_def updates_of_notifyObservers comp_def)

lemma failed_observers_Cons:
  "List.map_filter fst (map (notify_observer update n) (a # obs)) =
     (if update a n = Inr () then [] else [a])
     @ List.map_filter fst (map (notify_observer update n) obs)"
proof (cases "update a n")
  case (Inl e)
  then have "fst (notify_observer update n a) = Some a"
    by (simp add: notify_observer_def)
  with Inl show ?thesis by (simp add: List.map_filter_simps)
next
  case (Inr u)
  then have "fst (notify_observer update n a) = None"
    by (simp add: notify_observer_def)
  with Inr show ?thesis by (simp add: List.map_filter_simps)
qed

lemma failed_observers_set:
  "set (List.map_filter fst (map (notify_observer update n) obs)) =
     {ob \<in> set obs. update ob n \<noteq> Inr ()}"
proof (induction obs)
  case Nil
  then show ?case by (simp add: List.map_filter_simps)
next
  case (Cons a obs)
  show ?case
    unfolding failed_observers_Cons set_append Cons.IH by auto
qed

lemma failed_observers_hashable:
  "list_all hashable (List.map_filter fst (map (notify_observer update n) obs)) =
     failures_hashable update n obs"
  unfolding list_all_iff failed_observers_set failures_hashable_def by auto

lemma failed_observers_empty:
  "(List.map_filter fst (map (notify_observer update n) obs) = []) =
     (\<forall>ob \<in> set obs. update ob n = Inr ())"
proof -
  have "(List.map_filter fst (map (notify_observer update n) obs) = []) =
          (set (List.map_filter fst (map (notify_observer update n) obs)) = {})"
    by simp
  also have "\<dots> = (\<forall>ob \<in> set obs. update ob n = Inr ())"
    unfolding failed_observers_set by auto
  finally show ?thesis .
qed

lemma none_failed_hashable:
  "\<forall>ob \<in> set obs. update ob n = Inr () \<Longrightarrow> failures_hashable update n obs"
  by (simp add: failures_hashable_def list_all_iff)

lemma notifyObservers_exception:
  "snd (snd (notifyObservers update et d obs)) =
     (if failures_hashable update \<lparr>event_type = et, data = d\<rparr> obs then None else Some TypeError)"
proof -
  let ?n = "\<lparr>event_type = et, data = d\<rparr>"
  show ?thesis
  proof (cases "List.map_filter fst (map (notify_observer update ?n) obs) = []")
    case True
    then have "failures_hashable update ?n obs"
      by (simp add: failed_observers_empty none_failed_hashable)
    with True show ?thesis by (simp add: notifyObservers_def Let_def)
  next
    case False
    then show ?thesis
      by (simp add: notifyObservers_def Let_def failed_observers_hashable)
  qed
qed

lemma observers_after_notify:
  "fst (notifyObservers update et d obs) =
     (if failures_hashable update \<lparr>event_type = et, data = d\<rparr> obs
      then filter (\<lambda>ob. update ob \<lparr>event_type = et, data = d\<rparr> = Inr ()) obs
      else obs)"
proof -
  let ?n = "\<lparr>event_type = et, data = d\<rparr>"
  let ?failed = "List.map_filter fst (map (notify_observer update ?n) obs)"
  have s: "set ?failed = {ob \<in> set obs. update ob ?n \<noteq> Inr ()}"
    by (rule failed_observers_set)
  have f: "filter (\<lambda>ob. ob \<notin> set ?failed) obs = filter (\<lambda>ob. update ob ?n = Inr ()) obs"
    by (rule filter_cong) (simp_all add: s)
  show ?thesis
  proof (cases "?failed = []")
    case True
    then have all: "\<forall>ob \<in> set obs. update ob ?n = Inr ()"
      by (simp add: failed_observers_empty)
    then have "filter (\<lambda>ob. update ob ?n = Inr ()) obs = obs" by simp
    with True all show ?thesis
      by (simp add: notifyObservers_def Let_def none_failed_hashable)
  next
    case False
    with f show ?thesis
      by (simp add: notifyObservers_def Let_def failed_observers_hashable)
  qed
qed

lemma observers_after_notify_subset:
  "set (fst (notifyObservers update et d obs)) \<subseteq> set obs"
  by (simp add: observers_after_notify)

lemma observers_after_notify_keeps:
  "ob \<in> set obs \<Longrightarrow> update ob \<lparr>event_type = et, data = d\<rparr> = Inr ()
     \<Longrightarrow> ob \<in> set (fst (notifyObservers update et d obs))"
  by (simp add: observers_after_notify)

lemma absent_never_notified:
  "ob \<notin> set obs \<Longrightarrow> \<forall>es \<in> set (notify_all ps obs). ob \<notin> set (receivers es)"
proof (induction ps arbitrary: obs)
  case Nil
  then show ?case by simp
next
  case (Cons p ps)
  obtain update et d where p: "p = (update, et, d)" by (cases p)
  have "ob \<notin> set (fst (notifyObservers update et d obs))"
    using Cons.prems observers_after_notify_subset[of update et d obs] by auto
  from Cons.IH[OF this] Cons.prems show ?case
    by (simp add: p receivers_notifyObservers)
qed

lemma healthy_always_notified:
  "ob \<in> set obs \<Longrightarrow> k < length ps \<Longrightarrow> \<forall>p \<in> set (take k ps). returns_in ob p
     \<Longrightarrow> ob \<in> set (receivers (notify_all ps obs ! k))"
proof (induction ps arbitrary: obs k)
  case Nil
  then show ?case by simp
next
  case (Cons p ps)
  obtain update et d where p: "p = (update, et, d)" by (cases p)
  show ?case
  proof (cases k)
    case 0
    then show ?thesis using Cons.prems by (simp add: p receivers_notifyObservers)
  next
    case (Suc j)
    have r: "returns_in ob p" using Cons.prems Suc by simp
    have "ob \<in> set (fst (notifyObservers update et d obs))"
      using Cons.prems(1) r by (simp add: observers_after_notify_keeps p returns_in_def)
    moreover have "j < length ps" using Cons.prems Suc by simp
    moreover have "\<forall>p \<in> set (take j ps). returns_in ob p" using Cons.prems Suc by simp
    ultimately have
      "ob \<in> set (receivers (notify_all ps (fst (notifyObservers update et d obs)) ! j))"
      by (rule Cons.IH)
    then show ?thesis by (simp add: p Suc)
  qed
qed

text \<open>
  What \<^verbatim>\<open>notifyObservers\<close> does when the \<^verbatim>\<open>update\<close> of a registered observer \<open>ob\<close>
  raises.  In every case each registered observer is called in that pass, in
  registration order, and every registered observer is called in each later pass up
  to which it has not itself raised.  When all the observers that raised in the pass
  are hashable, the method returns, \<open>ob\<close> is no longer registered afterwards and is
  called in none of the later passes.  When one of them is not, the method raises
  \<^verbatim>\<open>TypeError\<close> and the registered observers stay as they were, \<open>ob\<close> among them.
\<close>

lemma failing_observer_pass:
  assumes "ob \<in> set obs" and "update ob \<lparr>event_type = et, data = d\<rparr> = Inl e"
  shows "receivers (fst (snd (notifyObservers update et d obs))) = obs
       \<and> (\<forall>other \<in> set obs. \<forall>k < length ((update, et, d) # later).
             (\<forall>p \<in> set (take k ((update, et, d) # later)). returns_in other p)
             \<longrightarrow> other \<in> set (receivers (notify_all ((update, et, d) # later) obs ! k)))
       \<and> (failures_hashable update \<lparr>event_type = et, data = d\<rparr> obs \<longrightarrow>
             snd (snd (notifyObservers update et d obs)) = None
           \<and> ob \<notin> set (fst (notifyObservers update et d obs))
           \<and> (\<forall>es \<in> set (notify_all later (fst (notifyObservers update et d obs))).
                 ob \<notin> set (receivers es)))
       \<and> (\<not> failures_hashable update \<lparr>event_type = et, data = d\<rparr> obs \<longrightarrow>
             snd (snd (notifyObservers update et d obs)) = Some TypeError
           \<and> fst (notifyObservers update et d obs) = obs)"
proof -
  have others: "\<forall>other \<in> set obs. \<forall>k < length ((update, et, d) # later).
             (\<forall>p \<in> set (take k ((update, et, d) # later)). returns_in other p)
             \<longrightarrow> other \<in> set (receivers (notify_all ((update, et, d) # later) obs ! k))"
  proof (intro ballI allI impI)
    fix other k
    assume "other \<in> set obs" and "k < length ((update, et, d) # later)"
      and "\<forall>p \<in> set (take k ((update, et, d) # later)). returns_in other p"
    then show "other \<in> set (receivers (notify_all ((update, et, d) # later) obs ! k))"
      by (rule healthy_always_notified)
  qed
  have good: "failures_hashable update \<lparr>event_type = et, data = d\<rparr> obs \<longrightarrow>
             snd (snd (notifyObservers update et d obs)) = None
           \<and> ob \<notin> set (fst (notifyObservers update et d obs))
           \<and> (\<forall>es \<in> set (notify_all later (fst (notifyObservers update et d obs))).
                 ob \<notin> set (receivers es))"
  proof
    assume h: "failures_hashable update \<lparr>event_type = et, data = d\<rparr> obs"
    have gone: "ob \<notin> set (fst (notifyObservers update et d obs))"
      using assms h by (simp add: observers_after_notify)
    have later_none: "\<forall>es \<in> set (notify_all later (fst (notifyObservers update et d obs))).
             ob \<notin> set (receivers es)"
      by (rule absent_never_notified[OF gone])
    have ret: "snd (snd (notifyObservers update et d obs)) = None"
      using h by (simp add: notifyObservers_exception)
    from ret gone later_none
    show "snd (snd (notifyObservers update et d obs)) = None
           \<and> ob \<notin> set (fst (notifyObservers update et d obs))
           \<and> (\<forall>es \<in> set (notify_all later (fst (notifyObservers update et d obs))).
                 ob \<notin> set (receivers es))"
      by (intro conjI)
  qed
  have bad: "\<not> failures_hashable update \<lparr>event_type = et, data = d\<rparr> obs \<longrightarrow>
             snd (snd (notifyObservers update et d obs)) = Some TypeError
           \<and> fst (notifyObservers update et d obs) = obs"
    by (simp add: notifyObservers_exception observers_after_notify)
  from receivers_notifyObservers others good bad show ?thesis
    by (intro conjI)
qed

text \<open>
  C3.  The claim fails on a subject with two registered observers, the second an
  unhashable object whose \<^verbatim>\<open>update\<close> raises.  Both observers are called and the
  error is logged; then \<^verbatim>\<open>set(failed_observers)\<close> raises \<^verbatim>\<open>TypeError\<close>, which
  leaves \<^verbatim>\<open>notifyObservers\<close>: no warning is logged, the failing observer is still
  registered, and it is called again in the next pass.
\<close>

theorem notifyObservers_unhashable_observer_raises:
  "notifyObservers unhashable_raises ''containers_updated'' (DataRef (RList 0))
     [Hashable 1, Unhashable 2]
   = ([Hashable 1, Unhashable 2],
      [Log DEBUG ''{self.__class__.__name__} notifying {len(observers)} observers of {event_type}'',
       Update (Hashable 1) \<lparr>event_type = ''containers_updated'', data = DataRef (RList 0)\<rparr>,
       Update (Unhashable 2) \<lparr>event_type = ''containers_updated'', data = DataRef (RList 0)\<rparr>,
       Log ERROR ''Error notifying observer {observer.__class__.__name__}: {e}''],
      Some TypeError)
   \<and> map receivers
       (notify_all [(unhashable_raises, ''containers_updated'', DataRef (RList 0)),
                    (unhashable_raises, ''images_updated'', DataRef (RList 0))]
          [Hashable 1, Unhashable 2])
     = [[Hashable 1, Unhashable 2], [Hashable 1, Unhashable 2]]"
proof -
  have pass: "notifyObservers unhashable_raises ''containers_updated'' (DataRef (RList 0))
     [Hashable 1, Unhashable 2]
   = ([Hashable 1, Unhashable 2],
      [Log DEBUG ''{self.__class__.__name__} notifying {len(observers)} observers of {event_type}'',
       Update (Hashable 1) \<lparr>event_type = ''containers_updated'', data = DataRef (RList 0)\<rparr>,
       Update (Unhashable 2) \<lparr>event_type = ''containers_updated'', data = DataRef (RList 0)\<rparr>,
       Log ERROR ''Error notifying observer {observer.__class__.__name__}: {e}''],
      Some TypeError)"
    by (simp add: notifyObservers_def Let_def notify_observer_def unhashable_raises_def
        List.map_filter_simps)
  have passes: "map receivers
       (notify_all [(unhashable_raises, ''containers_updated'', DataRef (RList 0)),
                    (unhashable_raises, ''images_updated'', DataRef (RList 0))]
          [Hashable 1, Unhashable 2])
     = [[Hashable 1, Unhashable 2], [Hashable 1, Unhashable 2]]"
    by (simp add: receivers_notifyObservers observers_after_notify failures_hashable_def
        unhashable_raises_def)
  from pass passes show ?thesis by (intro conjI)
qed

text \<open>
  The same subject with a hashable failing observer: the method returns, the
  observer is removed with a warning and is not called in the next pass.
\<close>

lemma notifyObservers_hashable_observer_removed:
  "notifyObservers second_raises ''containers_updated'' (DataRef (RList 0))
     [Hashable 1, Hashable 2, Hashable 3]
   = ([Hashable 1, Hashable 3],
      [Log DEBUG ''{self.__class__.__name__} notifying {len(observers)} observers of {event_type}'',
       Update (Hashable 1) \<lparr>event_type = ''containers_updated'', data = DataRef (RList 0)\<rparr>,
       Update (Hashable 2) \<lparr>event_type = ''containers_updated'', data = DataRef (RList 0)\<rparr>,
       Log ERROR ''Error notifying observer {observer.__class__.__name__}: {e}'',
       Update (Hashable 3) \<lparr>event_type = ''containers_updated'', data = DataRef (RList 0)\<rparr>,
       Log WARNING ''Removed failing observer {observer.__class__.__name__} after update error''],
      None)
   \<and> map receivers
       (notify_all [(second_raises, ''containers_updated'', DataRef (RList 0)),
                    (second_raises, ''images_updated'', DataRef (RList 0))]
          [Hashable 1, Hashable 2, Hashable 3])
     = [[Hashable 1, Hashable 2, Hashable 3], [Hashable 1, Hashable 3]]"
proof -
  have pass: "notifyObservers second_raises ''containers_updated'' (DataRef (RList 0))
     [Hashable 1, Hashable 2, Hashable 3]
   = ([Hashable 1, Hashable 3],
      [Log DEBUG ''{self.__class__.__name__} notifying {len(observers)} observers of {event_type}'',
       Update (Hashable 1) \<lparr>event_type = ''containers_updated'', data = DataRef (RList 0)\<rparr>,
       Update (Hashable 2) \<lparr>event_type = ''containers_updated'', data = DataRef (RList 0)\<rparr>,
       Log ERROR ''Error notifying observer {observer.__class__.__name__}: {e}'',
       Update (Hashable 3) \<lparr>event_type = ''containers_updated'', data = DataRef (RList 0)\<rparr>,
       Log WARNING ''Removed failing observer {observer.__class__.__name__} after update error''],
      None)"
    by (simp add: notifyObservers_def Let_def notify_observer_def second_raises_def
        List.map_filter_simps)
  have passes: "map receivers
       (notify_all [(second_raises, ''containers_updated'', DataRef (RList 0)),
                    (second_raises, ''images_updated'', DataRef (RList 0))]
          [Hashable 1, Hashable 2, Hashable 3])
     = [[Hashable 1, Hashable 2, Hashable 3], [Hashable 1, Hashable 3]]"
    by (simp add: receivers_notifyObservers observers_after_notify failures_hashable_def
        second_raises_def)
  from pass passes show ?thesis by (intro conjI)
qed

section \<open>Properties of the data controller\<close>

lemma update_containers_misuse:
  "\<not> is_list x \<Longrightarrow> \<exists>lvl msg. update_containers update x ctl = (ctl, [Log lvl msg], None)"
  by (simp add: update_containers_def)

lemma update_networks_misuse:
  "\<not> is_list x \<Longrightarrow> \<exists>lvl msg. update_networks update x ctl = (ctl, [Log lvl msg], None)"
  by (simp add: update_networks_def)

lemma update_images_misuse:
  "\<not> is_list x \<Longrightarrow> \<exists>lvl msg. update_images update x ctl = (ctl, [Log lvl msg], None)"
  by (simp add: update_images_def)

lemma update_volumes_misuse:
  "\<not> is_list x \<Longrightarrow> \<exists>lvl msg. update_volumes update x ctl = (ctl, [Log lvl msg], None)"
  by (simp add: update_volumes_def)

lemma is_list_not_None: "is_list x \<Longrightarrow> x \<noteq> RNone"
  by (cases x) simp_all

lemma update_containers_list:
  "is_list x \<Longrightarrow>
     update_containers update x ctl =
       (ctl\<lparr>containers_cache := x,
             observers := fst (notifyObservers update ''containers_updated'' (DataRef x)
                                (observers ctl))\<rparr>,
        fst (snd (notifyObservers update ''containers_updated'' (DataRef x) (observers ctl)))
        @ (if snd (snd (notifyObservers update ''containers_updated'' (DataRef x) (observers ctl))) = None
           then [Log DEBUG ''Container data updated: {len(containers_data)} containers'']
           else []),
        snd (snd (notifyObservers update ''containers_updated'' (DataRef x) (observers ctl))))"
proof -
  assume l: "is_list x"
  obtain obs es exc where
    n: "notifyObservers update ''containers_updated'' (DataRef x) (observers ctl) = (obs, es, exc)"
    by (rule prod_cases3)
  from l show ?thesis
    by (cases exc) (simp_all add: update_containers_def is_list_not_None n Let_def)
qed

lemma update_networks_list:
  "is_list x \<Longrightarrow>
     update_networks update x ctl =
       (ctl\<lparr>networks_cache := x,
             observers := fst (notifyObservers update ''networks_updated'' (DataRef x)
                                (observers ctl))\<rparr>,
        fst (snd (notifyObservers update ''networks_updated'' (DataRef x) (observers ctl)))
        @ (if snd (snd (notifyObservers update ''networks_updated'' (DataRef x) (observers ctl))) = None
           then [Log DEBUG ''Network data updated: {len(networks_data)} networks'']
           else []),
        snd (snd (notifyObservers update ''networks_updated'' (DataRef x) (observers ctl))))"
proof -
  assume l: "is_list x"
  obtain obs es exc where
    n: "notifyObservers update ''networks_updated'' (DataRef x) (observers ctl) = (obs, es, exc)"
    by (rule prod_cases3)
  from l show ?thesis
    by (cases exc) (simp_all add: update_networks_def is_list_not_None n Let_def)
qed

lemma update_images_list:
  "is_list x \<Longrightarrow>
     update_images update x ctl =
       (ctl\<lparr>images_cache := x,
             observers := fst (notifyObservers update ''images_updated'' (DataRef x)
                                (observers ctl))\<rparr>,
        fst (snd (notifyObservers update ''images_updated'' (DataRef x) (observers ctl)))
        @ (if snd (snd (notifyObservers update ''images_updated'' (DataRef x) (observers ctl))) = None
           then [Log DEBUG ''Image data updated: {len(images_data)} images'']
           else []),
        snd (snd (notifyObservers update ''images_updated'' (DataRef x) (observers ctl))))"
proof -
  assume l: "is_list x"
  obtain obs es exc where
    n: "notifyObservers update ''images_updated'' (DataRef x) (observers ctl) = (obs, es, exc)"
    by (rule prod_cases3)
  from l show ?thesis
    by (cases exc) (simp_all add: update_images_def is_list_not_None n Let_def)
qed

lemma update_volumes_list:
  "is_list x \<Longrightarrow>
     update_volumes update x ctl =
       (ctl\<lparr>volumes_cache := x,
             observers := fst (notifyObservers update ''volumes_updated'' (DataRef x)
                                (observers ctl))\<rparr>,
        fst (snd (notifyObservers update ''volumes_updated'' (DataRef x) (observers ctl)))
        @ (if snd (snd (notifyObservers update ''volumes_updated'' (DataRef x) (observers ctl))) = None
           then [Log DEBUG ''Volume data updated: {len(volumes_data)} volumes'']
           else []),
        snd (snd (notifyObservers update ''volumes_updated'' (DataRef x) (observers ctl))))"
proof -
  assume l: "is_list x"
  obtain obs es exc where
    n: "notifyObservers update ''volumes_updated'' (DataRef x) (observers ctl) = (obs, es, exc)"
    by (rule prod_cases3)
  from l show ?thesis
    by (cases exc) (simp_all add: update_volumes_def is_list_not_None n Let_def)
qed

lemma updates_of_then_log:
  "updates_of (fst (snd (notifyObservers update et d obs)) @ (if b then [Log l m] else [])) =
     map (\<lambda>ob. (ob, \<lparr>event_type = et, data = d\<rparr>)) obs"
  by (simp add: updates_of_append updates_of_notifyObservers)

text \<open>
  C6.  For each of the four resource types: when the argument is \<^verbatim>\<open>None\<close> or any
  other value that is not a list, the update method returns the controller as it
  was, and its only effect is one log record, so no observer is notified and the
  getter returns what it returned before.  When the argument is a list, the cache
  of that type is bound to it and each registered observer, in order, receives one
  notification whose event type is \<^verbatim>\<open><resource>_updated\<close> and whose payload is that
  list.
\<close>

theorem update_resource_rejects_non_lists:
  "(\<not> is_list x \<longrightarrow>
      (\<exists>lvl msg. update_containers update x ctl = (ctl, [Log lvl msg], None))
    \<and> (\<exists>lvl msg. update_networks update x ctl = (ctl, [Log lvl msg], None))
    \<and> (\<exists>lvl msg. update_images update x ctl = (ctl, [Log lvl msg], None))
    \<and> (\<exists>lvl msg. update_volumes update x ctl = (ctl, [Log lvl msg], None))
    \<and> get_containers (fst (update_containers update x ctl)) st = get_containers ctl st
    \<and> get_networks (fst (update_networks update x ctl)) st = get_networks ctl st
    \<and> get_images (fst (update_images update x ctl)) st = get_images ctl st
    \<and> get_volumes (fst (update_volumes update x ctl)) st = get_volumes ctl st)
   \<and> (is_list x \<longrightarrow>
      containers_cache (fst (update_containers update x ctl)) = x
    \<and> updates_of (fst (snd (update_containers update x ctl))) =
        map (\<lambda>ob. (ob, \<lparr>event_type = ''containers_updated'', data = DataRef x\<rparr>)) (observers ctl)
    \<and> networks_cache (fst (update_networks update x ctl)) = x
    \<and> updates_of (fst (snd (update_networks update x ctl))) =
        map (\<lambda>ob. (ob, \<lparr>event_type = ''networks_updated'', data = DataRef x\<rparr>)) (observers ctl)
    \<and> images_cache (fst (update_images update x ctl)) = x
    \<and> updates_of (fst (snd (update_images update x ctl))) =
        map (\<lambda>ob. (ob, \<lparr>event_type = ''images_updated'', data = DataRef x\<rparr>)) (observers ctl)
    \<and> volumes_cache (fst (update_volumes update x ctl)) = x
    \<and> updates_of (fst (snd (update_volumes update x ctl))) =
        map (\<lambda>ob. (ob, \<lparr>event_type = ''volumes_updated'', data = DataRef x\<rparr>)) (observers ctl))"
proof (intro conjI impI)
  assume n: "\<not> is_list x"
  show "\<exists>lvl msg. update_containers update x ctl = (ctl, [Log lvl msg], None)"
    by (rule update_containers_misuse[OF n])
  then show "get_containers (fst (update_containers update x ctl)) st = get_containers ctl st"
    by auto
  show "\<exists>lvl msg. update_networks update x ctl = (ctl, [Log lvl msg], None)"
    by (rule update_networks_misuse[OF n])
  then show "get_networks (fst (update_networks update x ctl)) st = get_networks ctl st"
    by auto
  show "\<exists>lvl msg. update_images update x ctl = (ctl, [Log lvl msg], None)"
    by (rule update_images_misuse[OF n])
  then show "get_images (fst (update_images update x ctl)) st = get_images ctl st"
    by auto
  show "\<exists>lvl msg. update_volumes update x ctl = (ctl, [Log lvl msg], None)"
    by (rule update_volumes_misuse[OF n])
  then show "get_volumes (fst (update_volumes update x ctl)) st = get_volumes ctl st"
    by auto
next
  assume l: "is_list x"
  show "containers_cache (fst (update_containers update x ctl)) = x"
    by (simp add: update_containers_list[OF l])
  show "networks_cache (fst (update_networks update x ctl)) = x"
    by (simp add: update_networks_list[OF l])
  show "images_cache (fst (update_images update x ctl)) = x"
    by (simp add: update_images_list[OF l])
  show "volumes_cache (fst (update_volumes update x ctl)) = x"
    by (simp add: update_volumes_list[OF l])
  show "updates_of (fst (snd (update_containers update x ctl))) =
        map (\<lambda>ob. (ob, \<lparr>event_type = ''containers_updated'', data = DataRef x\<rparr>)) (observers ctl)"
    unfolding update_containers_list[OF l] snd_conv fst_conv by (rule updates_of_then_log)
  show "updates_of (fst (snd (update_networks update x ctl))) =
        map (\<lambda>ob. (ob, \<lparr>event_type = ''networks_updated'', data = DataRef x\<rparr>)) (observers ctl)"
    unfolding update_networks_list[OF l] snd_conv fst_conv by (rule updates_of_then_log)
  show "updates_of (fst (snd (update_images update x ctl))) =
        map (\<lambda>ob. (ob, \<lparr>event_type = ''images_updated'', data = DataRef x\<rparr>)) (observers ctl)"
    unfolding update_images_list[OF l] snd_conv fst_conv by (rule updates_of_then_log)
  show "updates_of (fst (snd (update_volumes update x ctl))) =
        map (\<lambda>ob. (ob, \<lparr>event_type = ''volumes_updated'', data = DataRef x\<rparr>)) (observers ctl)"
    unfolding update_volumes_list[OF l] snd_conv fst_conv by (rule updates_of_then_log)
qed

theorem update_resource_rejects_non_lists_witness:
  "\<not> is_list (RStr ''not a list'')
   \<and> update_containers all_return (RStr ''not a list'') controller0
       = (controller0, [Log ERROR ''update_containers expected list, got {type(containers_data)}''], None)
   \<and> get_containers (fst (update_containers all_return (RStr ''not a list'') controller0)) store0
       = get_containers controller0 store0
   \<and> is_list (RList 0)
   \<and> containers_cache (fst (update_containers all_return (RList 0) controller0)) = RList 0
   \<and> updates_of (fst (snd (update_containers all_return (RList 0) controller0)))
       = [(Hashable 1, \<lparr>event_type = ''containers_updated'', data = DataRef (RList 0)\<rparr>),
          (Hashable 2, \<lparr>event_type = ''containers_updated'', data = DataRef (RList 0)\<rparr>)]"
proof -
  have a: "update_containers all_return (RStr ''not a list'') controller0
       = (controller0, [Log ERROR ''update_containers expected list, got {type(containers_data)}''], None)"
    by (simp add: update_containers_def)
  have b: "observers controller0 = [Hashable 1, Hashable 2]"
    by (simp add: controller0_def)
  from a b
    update_resource_rejects_non_lists [of "RStr ''not a list''" all_return controller0 store0]
    update_resource_rejects_non_lists [of "RList 0" all_return controller0 store0]
  show ?thesis by simp
qed

lemma copy_of_list:
  "py_copy (RList a) st = Inr (RList (next_addr st), snd (new_list (list_objs st a) st))"
  by (simp add: new_list_def)

lemma list_value_of_copy:
  "list_value (snd (new_list (list_objs st a) st)) (next_addr st) = list_value st a"
  by (simp add: list_value_def new_list_def)

lemma copy_after_list_mutate:
  assumes "a < next_addr st"
  shows "py_copy (RList a) (list_mutate (next_addr st) elems (snd (new_list (list_objs st a) st)))
         = Inr (RList (Suc (next_addr st)),
                snd (new_list (list_objs st a)
                      (list_mutate (next_addr st) elems (snd (new_list (list_objs st a) st)))))
       \<and> list_value
           (snd (new_list (list_objs st a)
                  (list_mutate (next_addr st) elems (snd (new_list (list_objs st a) st)))))
           (Suc (next_addr st))
         = list_value st a"
  using assms by (simp add: new_list_def list_mutate_def list_value_def)

text \<open>
  C7, as the code has it.  Let \<open>L\<close> be a list allocated in the store.  For each of
  the four resource types, the getter called right after the update with \<open>L\<close>
  returns a new list object: its address differs from \<open>L\<close> and its value equals
  the value of \<open>L\<close>.  Whatever elements the caller then gives to that returned
  list object, the next call of the getter again returns a list whose value is the
  value of \<open>L\<close>.  The copy is shallow: the theorem speaks of changes to the returned
  list itself, not of changes made inside its element dictionaries, which the cache
  shares.
\<close>

theorem get_after_update_is_fresh_copy:
  assumes "L < next_addr st"
  shows
   "get_containers (fst (update_containers update (RList L) ctl)) st
      = Inr (RList (next_addr st), snd (new_list (list_objs st L) st))
    \<and> get_networks (fst (update_networks update (RList L) ctl)) st
      = Inr (RList (next_addr st), snd (new_list (list_objs st L) st))
    \<and> get_images (fst (update_images update (RList L) ctl)) st
      = Inr (RList (next_addr st), snd (new_list (list_objs st L) st))
    \<and> get_volumes (fst (update_volumes update (RList L) ctl)) st
      = Inr (RList (next_addr st), snd (new_list (list_objs st L) st))
    \<and> next_addr st \<noteq> L
    \<and> list_value (snd (new_list (list_objs st L) st)) (next_addr st) = list_value st L
    \<and> (\<forall>elems. \<exists>r st2.
          get_containers (fst (update_containers update (RList L) ctl))
            (list_mutate (next_addr st) elems (snd (new_list (list_objs st L) st)))
            = Inr (RList r, st2)
          \<and> get_networks (fst (update_networks update (RList L) ctl))
            (list_mutate (next_addr st) elems (snd (new_list (list_objs st L) st)))
            = Inr (RList r, st2)
          \<and> get_images (fst (update_images update (RList L) ctl))
            (list_mutate (next_addr st) elems (snd (new_list (list_objs st L) st)))
            = Inr (RList r, st2)
          \<and> get_volumes (fst (update_volumes update (RList L) ctl))
            (list_mutate (next_addr st) elems (snd (new_list (list_objs st L) st)))
            = Inr (RList r, st2)
          \<and> r \<noteq> L
          \<and> list_value st2 r = list_value st L)"
proof -
  have c: "containers_cache (fst (update_containers update (RList L) ctl)) = RList L"
    by (simp add: update_containers_list)
  have n: "networks_cache (fst (update_networks update (RList L) ctl)) = RList L"
    by (simp add: update_networks_list)
  have i: "images_cache (fst (update_images update (RList L) ctl)) = RList L"
    by (simp add: update_images_list)
  have v: "volumes_cache (fst (update_volumes update (RList L) ctl)) = RList L"
    by (simp add: update_volumes_list)
  have fresh: "next_addr st \<noteq> L" using assms by simp
  have later: "\<forall>elems. \<exists>r st2.
          py_copy (RList L) (list_mutate (next_addr st) elems (snd (new_list (list_objs st L) st)))
            = Inr (RList r, st2)
          \<and> r \<noteq> L \<and> list_value st2 r = list_value st L"
  proof
    fix elems
    from copy_after_list_mutate[OF assms, of elems] assms
    show "\<exists>r st2.
          py_copy (RList L) (list_mutate (next_addr st) elems (snd (new_list (list_objs st L) st)))
            = Inr (RList r, st2)
          \<and> r \<noteq> L \<and> list_value st2 r = list_value st L"
      by (intro exI[of _ "Suc (next_addr st)"] exI) auto
  qed
  show ?thesis
    unfolding get_containers_def get_networks_def get_images_def get_volumes_def c n i v
    using fresh later list_value_of_copy[of st L] copy_of_list[of L st]
    by simp
qed

theorem get_after_update_is_fresh_copy_witness:
  "(0::nat) < next_addr store0
   \<and> get_containers (fst (update_containers all_return (RList 0) controller0)) store0
      = Inr (RList 2, snd (new_list [1] store0))
   \<and> list_value (snd (new_list [1] store0)) 2 = [[(''id'', PStr ''a'')]]
   \<and> list_value store0 0 = [[(''id'', PStr ''a'')]]"
proof -
  have h: "(0::nat) < next_addr store0" by (simp add: store0_def)
  have l: "list_objs store0 0 = [1]" "next_addr store0 = 2" by (simp_all add: store0_def)
  have w: "list_value store0 0 = [[(''id'', PStr ''a'')]]"
    by (simp add: list_value_def store0_def)
  from get_after_update_is_fresh_copy[OF h, of all_return controller0] h l w
  show ?thesis by simp
qed

text \<open>
  C7, as the claim states it, fails.  The store holds the list \<open>0\<close> with the single
  element \<^verbatim>\<open>{'id': 'a'}\<close> (the dictionary at address \<open>1\<close>).  After the update with
  that list the getter returns the list \<open>2\<close>, whose element is the same dictionary
  \<open>1\<close>.  Changing that element through the returned copy (\<^verbatim>\<open>copy[0]['id'] = 'b'\<close>)
  changes what the cache holds: the next call of the getter returns
  \<^verbatim>\<open>[{'id': 'b'}]\<close>, which is not the value that was passed to the update.
\<close>

theorem get_returns_shallow_copy_counterexample:
  "list_value store0 0 = [[(''id'', PStr ''a'')]]
   \<and> get_containers (fst (update_containers all_return (RList 0) controller0)) store0
      = Inr (RList 2, snd (new_list [1] store0))
   \<and> list_objs (snd (new_list [1] store0)) 2 = [1]
   \<and> get_containers (fst (update_containers all_return (RList 0) controller0))
        (dict_mutate 1 [(''id'', PStr ''b'')] (snd (new_list [1] store0)))
      = Inr (RList 3,
             snd (new_list [1] (dict_mutate 1 [(''id'', PStr ''b'')] (snd (new_list [1] store0)))))
   \<and> list_value
        (snd (new_list [1] (dict_mutate 1 [(''id'', PStr ''b'')] (snd (new_list [1] store0))))) 3
      = [[(''id'', PStr ''b'')]]"
  by (simp add: get_containers_def update_containers_list store0_def new_list_def
      dict_mutate_def list_value_def)
















section \<open>Properties of the bounded task runner\<close>

lemma pool_inv_init: "pool_inv init_pool"
  by (simp add: pool_inv_def init_pool_def MAX_PENDING_def)

lemma acquire_permit_full:
  assumes "sem_value p = 0" and "\<not> block req"
  shows "acquire_permit req p =
           Some (p, Log WARNING ''Background task queue is full; dropping task''
                    # call_on_error req TaskQueueFull, False)"
  using assms by (simp add: acquire_permit_def sem_try_acquire_def)

lemma acquire_permit_ok:
  assumes "sem_value p \<noteq> 0"
  shows "acquire_permit req p =
           Some (p\<lparr>sem_value := sem_value p - 1, holding := holding p @ [req]\<rparr>, [], True)"
  using assms by (simp add: acquire_permit_def sem_try_acquire_def)

lemma acquire_permit_inv:
  assumes "pool_inv p" and "acquire_permit req p = Some (p', es, acquired)"
  shows "pool_inv p'"
proof (cases "sem_value p = 0")
  case True
  with assms(2) have "p' = p"
    by (cases "block req") (simp_all add: acquire_permit_def sem_try_acquire_def)
  with assms(1) show ?thesis by simp
next
  case False
  with assms(2) have "p' = p\<lparr>sem_value := sem_value p - 1, holding := holding p @ [req]\<rparr>"
    by (simp add: acquire_permit_ok)
  with assms(1) False show ?thesis by (simp add: pool_inv_def)
qed

lemma submit_task_accepted:
  assumes "i < length (holding p)"
  shows "submit_task None i p =
           Some (p\<lparr>holding := take i (holding p) @ drop (Suc i) (holding p),
                    queue := queue p @ [holding p ! i]\<rparr>, [], True)"
  using assms by (simp add: submit_task_def Let_def)

lemma submit_task_refused:
  assumes "i < length (holding p)" and "sem_value p < MAX_PENDING"
  shows "submit_task (Some e) i p =
           Some (p\<lparr>holding := take i (holding p) @ drop (Suc i) (holding p),
                    sem_value := sem_value p + 1\<rparr>,
                 Log ERROR ''Failed to submit background task'' # call_on_error (holding p ! i) e,
                 False)"
  using assms by (simp add: submit_task_def Let_def sem_release_def)

lemma holding_below_bound:
  assumes "pool_inv p" and "i < length (holding p)"
  shows "sem_value p < MAX_PENDING"
  using assms by (auto simp: pool_inv_def)

lemma submit_task_inv:
  assumes "pool_inv p" and "submit_task submit i p = Some (p', es, fut)"
  shows "pool_inv p'"
proof -
  have i: "i < length (holding p)"
    using assms(2) by (simp add: submit_task_def split: if_splits)
  show ?thesis
  proof (cases submit)
    case None
    with assms(2) i have "p' = p\<lparr>holding := take i (holding p) @ drop (Suc i) (holding p),
                    queue := queue p @ [holding p ! i]\<rparr>"
      by (simp add: submit_task_accepted)
    with assms(1) i show ?thesis by (simp add: pool_inv_def min_def)
  next
    case (Some e)
    with assms(2) i holding_below_bound[OF assms(1) i]
    have "p' = p\<lparr>holding := take i (holding p) @ drop (Suc i) (holding p),
                    sem_value := sem_value p + 1\<rparr>"
      by (simp add: submit_task_refused)
    with assms(1) i show ?thesis by (simp add: pool_inv_def min_def)
  qed
qed

lemma run_in_thread_full:
  assumes "sem_value p = 0" and "\<not> block req"
  shows "run_in_thread submit req p =
           Some (p, Log WARNING ''Background task queue is full; dropping task''
                    # call_on_error req TaskQueueFull, False)"
  using assms by (simp add: run_in_thread_def acquire_permit_full)

lemma run_in_thread_accepted:
  assumes "sem_value p \<noteq> 0"
  shows "run_in_thread None req p =
           Some (p\<lparr>sem_value := sem_value p - 1, queue := queue p @ [req]\<rparr>, [], True)"
  using assms
  by (simp add: run_in_thread_def acquire_permit_ok submit_task_accepted)

lemma run_in_thread_submit_fails:
  assumes "sem_value p \<noteq> 0" and "sem_value p \<le> MAX_PENDING"
  shows "run_in_thread (Some e) req p =
           Some (p, Log ERROR ''Failed to submit background task'' # call_on_error req e, False)"
  using assms
  by (simp add: run_in_thread_def acquire_permit_ok submit_task_refused)

lemma run_in_thread_inv:
  assumes "pool_inv p" and "run_in_thread submit req p = Some (p', es, fut)"
  shows "pool_inv p'"
proof (cases "sem_value p = 0")
  case True
  with assms(2) have "p' = p"
    by (cases "block req")
      (simp_all add: run_in_thread_def acquire_permit_def sem_try_acquire_def)
  with assms(1) show ?thesis by simp
next
  case False
  have le: "sem_value p \<le> MAX_PENDING" using assms(1) by (simp add: pool_inv_def)
  show ?thesis
  proof (cases submit)
    case None
    with assms(2) False
    have "p' = p\<lparr>sem_value := sem_value p - 1, queue := queue p @ [req]\<rparr>"
      by (simp add: run_in_thread_accepted)
    with assms(1) False show ?thesis by (simp add: pool_inv_def)
  next
    case (Some e)
    with assms(2) False le have "p' = p" by (simp add: run_in_thread_submit_fails)
    with assms(1) show ?thesis by simp
  qed
qed

lemma task_body_release:
  assumes "sem_value p < MAX_PENDING"
  shows "fst (task_body req out p) = p\<lparr>sem_value := sem_value p + 1\<rparr>"
  using assms by (simp add: task_body_def sem_release_def Let_def)

lemma complete_task_releases:
  assumes "pool_inv p" and "i < length (queue p)"
  shows "\<exists>es. complete_task i out p =
           Some (p\<lparr>queue := take i (queue p) @ drop (Suc i) (queue p),
                    sem_value := sem_value p + 1\<rparr>, es)"
proof -
  have "sem_value p < MAX_PENDING" using assms by (auto simp: pool_inv_def)
  then have "fst (task_body (queue p ! i) out
                   (p\<lparr>queue := take i (queue p) @ drop (Suc i) (queue p)\<rparr>))
             = p\<lparr>queue := take i (queue p) @ drop (Suc i) (queue p),
                  sem_value := sem_value p + 1\<rparr>"
    by (simp add: task_body_release)
  then show ?thesis
    using assms(2) by (simp add: complete_task_def) (metis prod.collapse)
qed

lemma complete_task_inv:
  assumes "pool_inv p" and "complete_task i out p = Some (p', es)"
  shows "pool_inv p'"
proof -
  have i: "i < length (queue p)"
    using assms(2) by (simp add: complete_task_def split: if_splits)
  from complete_task_releases[OF assms(1) i, of out] assms(2)
  have "p' = p\<lparr>queue := take i (queue p) @ drop (Suc i) (queue p),
                 sem_value := sem_value p + 1\<rparr>"
    by auto
  with assms(1) i show ?thesis by (simp add: pool_inv_def min_def)
qed

lemma step_inv:
  assumes "pool_inv p"
  shows "pool_inv (fst (step ev p))"
proof (cases ev)
  case (Acquire req)
  then show ?thesis
    using assms acquire_permit_inv[of p req]
    by (cases "acquire_permit req p") auto
next
  case (SubmitStep submit i)
  then show ?thesis
    using assms submit_task_inv[of p submit i]
    by (cases "submit_task submit i p") auto
next
  case (Submit submit req)
  then show ?thesis
    using assms run_in_thread_inv[of p submit req]
    by (cases "run_in_thread submit req p") auto
next
  case (Complete i out)
  then show ?thesis
    using assms complete_task_inv[of p i out]
    by (cases "complete_task i out p") auto
qed

lemma exec_inv: "pool_inv p \<Longrightarrow> pool_inv (fst (exec evs p))"
proof (induction evs arbitrary: p)
  case Nil
  then show ?case by simp
next
  case (Cons ev evs)
  have "pool_inv (fst (step ev p))" using Cons.prems by (rule step_inv)
  then have "pool_inv (fst (exec evs (fst (step ev p))))" by (rule Cons.IH)
  then show ?case by (simp add: split_beta)
qed

lemma reachable_inv: "pool_inv (fst (exec evs init_pool))"
  by (rule exec_inv[OF pool_inv_init])

lemma call_on_error_never_runs: "RunFn t \<notin> set (call_on_error req e)"
  by (simp add: call_on_error_def schedule_callback_def split: option.splits tk.splits)

lemma exec_submits:
  "int n \<le> sem_value p \<Longrightarrow>
     exec (replicate n (Submit None req)) p =
       (p\<lparr>sem_value := sem_value p - int n, queue := queue p @ replicate n req\<rparr>, [])"
proof (induction n arbitrary: p)
  case 0
  then show ?case by simp
next
  case (Suc n)
  have nz: "sem_value p \<noteq> 0" using Suc.prems by auto
  have "int n \<le> sem_value (p\<lparr>sem_value := sem_value p - 1, queue := queue p @ [req]\<rparr>)"
    using Suc.prems by simp
  from Suc.IH[OF this] nz show ?case
    by (simp add: run_in_thread_accepted replicate_app_Cons_same)
qed

text \<open>
  The permit accounting.  In every state \<open>p\<close> that callers and workers can reach
  from the initial one, whatever the interleaving, the pending count (permits taken)
  lies between \<open>0\<close> and \<^verbatim>\<open>_MAX_PENDING\<close> and equals the number of callers that hold
  a permit plus the number of accepted, unfinished tasks.  When the count is at the
  bound, a non-blocking submission leaves the state as it is, never calls \<^verbatim>\<open>fn\<close>,
  returns no future, and hands \<^verbatim>\<open>TaskQueueFull\<close> to \<^verbatim>\<open>_schedule_callback\<close>, which
  calls the failure callback directly when there is no \<^verbatim>\<open>tk_root\<close> or no main
  loop, schedules it with \<^verbatim>\<open>after\<close> when that succeeds, and only logs when
  \<^verbatim>\<open>after\<close> raises another exception.  The exception class is none of the others.
  When a task finishes, whether \<^verbatim>\<open>fn\<close> returned or raised, the count goes down by
  one; when the executor refuses the task of a caller that holds a permit, that
  permit is given back, so a whole call of \<^verbatim>\<open>run_in_thread\<close> whose submission
  fails leaves the count as it was.
\<close>

lemma pool_accounting:
  assumes "p = fst (exec evs init_pool)"
  shows "0 \<le> pending p \<and> pending p \<le> MAX_PENDING
    \<and> pending p = int (length (holding p)) + int (length (queue p))
    \<and> (pending p = MAX_PENDING \<and> \<not> block req \<longrightarrow>
          run_in_thread submit req p =
            Some (p, Log WARNING ''Background task queue is full; dropping task''
                     # call_on_error req TaskQueueFull, False)
        \<and> RunFn (task req)
            \<notin> set (Log WARNING ''Background task queue is full; dropping task''
                     # call_on_error req TaskQueueFull))
    \<and> (on_error req = Some beh \<longrightarrow>
          (tk_root req = NoTk \<or> tk_root req = TkNoMainloop \<longrightarrow>
             Invoke OnError (task req) (ArgExc TaskQueueFull)
               \<in> set (call_on_error req TaskQueueFull))
        \<and> (tk_root req = TkOk \<longrightarrow>
             call_on_error req TaskQueueFull = [After OnError (task req) (ArgExc TaskQueueFull)])
        \<and> (tk_root req = TkFails \<longrightarrow>
             call_on_error req TaskQueueFull = [Log ERROR ''Error scheduling callback'']))
    \<and> TaskQueueFull \<notin> {KeyError, TypeError, AttributeError, ZeroDivisionError, ValueError,
                           RuntimeError, NotFound, APIError}
    \<and> (i < length (queue p) \<longrightarrow>
          (\<exists>p' es. complete_task i out p = Some (p', es)
             \<and> pending p' = pending p - 1
             \<and> queue p' = take i (queue p) @ drop (Suc i) (queue p)))
    \<and> (j < length (holding p) \<longrightarrow>
          (\<exists>p' es. submit_task (Some e) j p = Some (p', es, False)
             \<and> pending p' = pending p - 1
             \<and> holding p' = take j (holding p) @ drop (Suc j) (holding p)
             \<and> queue p' = queue p))
    \<and> (pending p < MAX_PENDING \<longrightarrow>
          (\<exists>es. run_in_thread (Some e) req p = Some (p, es, False)
             \<and> RunFn (task req) \<notin> set es))"
proof -
  have inv: "pool_inv p" unfolding assms by (rule reachable_inv)
  have a1: "0 \<le> pending p" and a2: "pending p \<le> MAX_PENDING"
    and a3: "pending p = int (length (holding p)) + int (length (queue p))"
    using inv by (auto simp: pool_inv_def pending_def)
  have b: "pending p = MAX_PENDING \<and> \<not> block req \<longrightarrow>
          run_in_thread submit req p =
            Some (p, Log WARNING ''Background task queue is full; dropping task''
                     # call_on_error req TaskQueueFull, False)
        \<and> RunFn (task req)
            \<notin> set (Log WARNING ''Background task queue is full; dropping task''
                     # call_on_error req TaskQueueFull)"
    using run_in_thread_full[of p req submit] call_on_error_never_runs[of "task req" req TaskQueueFull]
    by (simp add: pending_def)
  have c: "on_error req = Some beh \<longrightarrow>
          (tk_root req = NoTk \<or> tk_root req = TkNoMainloop \<longrightarrow>
             Invoke OnError (task req) (ArgExc TaskQueueFull)
               \<in> set (call_on_error req TaskQueueFull))
        \<and> (tk_root req = TkOk \<longrightarrow>
             call_on_error req TaskQueueFull = [After OnError (task req) (ArgExc TaskQueueFull)])
        \<and> (tk_root req = TkFails \<longrightarrow>
             call_on_error req TaskQueueFull = [Log ERROR ''Error scheduling callback''])"
    by (auto simp: call_on_error_def schedule_callback_def)
  have d: "TaskQueueFull \<notin> {KeyError, TypeError, AttributeError, ZeroDivisionError, ValueError,
                           RuntimeError, NotFound, APIError}"
    by simp
  have e: "i < length (queue p) \<longrightarrow>
          (\<exists>p' es. complete_task i out p = Some (p', es)
             \<and> pending p' = pending p - 1
             \<and> queue p' = take i (queue p) @ drop (Suc i) (queue p))"
  proof
    assume i: "i < length (queue p)"
    from complete_task_releases[OF inv i, of out] obtain es where
      "complete_task i out p =
           Some (p\<lparr>queue := take i (queue p) @ drop (Suc i) (queue p),
                    sem_value := sem_value p + 1\<rparr>, es)"
      by blast
    then show "\<exists>p' es. complete_task i out p = Some (p', es)
             \<and> pending p' = pending p - 1
             \<and> queue p' = take i (queue p) @ drop (Suc i) (queue p)"
      by (simp add: pending_def)
  qed
  have g: "j < length (holding p) \<longrightarrow>
          (\<exists>p' es. submit_task (Some e) j p = Some (p', es, False)
             \<and> pending p' = pending p - 1
             \<and> holding p' = take j (holding p) @ drop (Suc j) (holding p)
             \<and> queue p' = queue p)"
  proof
    assume j: "j < length (holding p)"
    show "\<exists>p' es. submit_task (Some e) j p = Some (p', es, False)
             \<and> pending p' = pending p - 1
             \<and> holding p' = take j (holding p) @ drop (Suc j) (holding p)
             \<and> queue p' = queue p"
      by (simp add: submit_task_refused[OF j holding_below_bound[OF inv j]] pending_def)
  qed
  have f: "pending p < MAX_PENDING \<longrightarrow>
          (\<exists>es. run_in_thread (Some e) req p = Some (p, es, False)
             \<and> RunFn (task req) \<notin> set es)"
  proof
    assume "pending p < MAX_PENDING"
    then have nz: "sem_value p \<noteq> 0" by (simp add: pending_def)
    have le: "sem_value p \<le> MAX_PENDING" using inv by (simp add: pool_inv_def)
    show "\<exists>es. run_in_thread (Some e) req p = Some (p, es, False)
             \<and> RunFn (task req) \<notin> set es"
      using run_in_thread_submit_fails[OF nz le, of e req]
        call_on_error_never_runs[of "task req" req e]
      by simp
  qed
  from a1 a2 a3 b c d e g f show ?thesis by (intro conjI)
qed

lemma saturated_pool:
  "fst (exec saturating init_pool) = \<lparr>sem_value = 0, holding = [], queue = replicate 128 request0\<rparr>"
  using exec_submits[of 128 init_pool request0]
  by (simp add: saturating_def init_pool_def MAX_PENDING_def)

lemma one_task_pool:
  "fst (exec one_submission init_pool) = \<lparr>sem_value = 127, holding = [], queue = [request0]\<rparr>"
  using exec_submits[of 1 init_pool request0]
  by (simp add: one_submission_def init_pool_def MAX_PENDING_def del: exec.simps)

lemma one_holder_pool:
  "fst (exec one_holder init_pool) = \<lparr>sem_value = 127, holding = [request0], queue = []\<rparr>"
  by (simp add: one_holder_def init_pool_def MAX_PENDING_def acquire_permit_ok)

lemma pool_accounting_example:
  "pending (fst (exec saturating init_pool)) = MAX_PENDING
   \<and> \<not> block request0
   \<and> run_in_thread None request0 (fst (exec saturating init_pool))
       = Some (fst (exec saturating init_pool),
               [Log WARNING ''Background task queue is full; dropping task'',
                Invoke OnError 7 (ArgExc TaskQueueFull)],
               False)
   \<and> on_error request0 = Some Returns
   \<and> tk_root request0 = NoTk
   \<and> (0::nat) < length (queue (fst (exec saturating init_pool)))
   \<and> pending (fst (the (complete_task 0 (FnRaises RuntimeError) (fst (exec saturating init_pool)))))
       = 127
   \<and> (0::nat) < length (holding (fst (exec one_holder init_pool)))
   \<and> pending (fst (exec one_holder init_pool)) = 1
   \<and> pending (fst (the (submit_task (Some RuntimeError) 0 (fst (exec one_holder init_pool)))))
       = 0
   \<and> pending (fst (exec one_submission init_pool)) < MAX_PENDING
   \<and> fst (the (run_in_thread (Some RuntimeError) request0
                  (fst (exec one_submission init_pool))))
       = fst (exec one_submission init_pool)"
proof -
  note full = pool_accounting
    [where p = "fst (exec saturating init_pool)" and evs = saturating and req = request0
       and submit = None and beh = Returns and i = 0 and j = 0
       and out = "FnRaises RuntimeError" and e = RuntimeError, OF refl]
  note one = pool_accounting
    [where p = "fst (exec one_submission init_pool)" and evs = "one_submission"
       and req = request0 and submit = None and beh = Returns and i = 0 and j = 0
       and out = "FnRaises RuntimeError" and e = RuntimeError, OF refl]
  note held = pool_accounting
    [where p = "fst (exec one_holder init_pool)" and evs = one_holder
       and req = request0 and submit = None and beh = Returns and i = 0 and j = 0
       and out = "FnRaises RuntimeError" and e = RuntimeError, OF refl]
  have ph: "pending (fst (exec one_holder init_pool)) = 1"
    "(0::nat) < length (holding (fst (exec one_holder init_pool)))"
    by (simp_all add: one_holder_pool pending_def MAX_PENDING_def)
  have r: "\<not> block request0" "on_error request0 = Some Returns" "tk_root request0 = NoTk"
    "task request0 = 7"
    by (simp_all add: request0_def)
  have c: "call_on_error request0 TaskQueueFull = [Invoke OnError 7 (ArgExc TaskQueueFull)]"
    by (simp add: call_on_error_def schedule_callback_def request0_def)
  have pf: "pending (fst (exec saturating init_pool)) = MAX_PENDING"
    by (simp add: saturated_pool pending_def)
  have qf: "(0::nat) < length (queue (fst (exec saturating init_pool)))"
    by (simp add: saturated_pool)
  have po: "pending (fst (exec one_submission init_pool)) < MAX_PENDING"
    by (simp add: one_task_pool pending_def MAX_PENDING_def)
  have m: "MAX_PENDING - 1 = 127" by (simp add: MAX_PENDING_def)
  from full one held ph r c pf qf po m show ?thesis by auto
qed




text \<open>
  The same submission with a \<^verbatim>\<open>tk_root\<close> whose \<^verbatim>\<open>after\<close> raises \<^verbatim>\<open>RuntimeError\<close>:
  the failure callback is called synchronously with \<^verbatim>\<open>TaskQueueFull\<close>.
\<close>

lemma run_in_thread_full_no_mainloop:
  "run_in_thread None (request0\<lparr>tk_root := TkNoMainloop\<rparr>) (fst (exec saturating init_pool))
       = Some (fst (exec saturating init_pool),
               [Log WARNING ''Background task queue is full; dropping task'',
                Log WARNING ''Tk mainloop not available; invoking callback synchronously'',
                Invoke OnError 7 (ArgExc TaskQueueFull)],
               False)"
proof -
  have z: "sem_value (fst (exec saturating init_pool)) = 0"
    by (simp add: saturated_pool)
  have b: "\<not> block (request0\<lparr>tk_root := TkNoMainloop\<rparr>)"
    by (simp add: request0_def)
  show ?thesis
    using run_in_thread_full[of "fst (exec saturating init_pool)"
        "request0\<lparr>tk_root := TkNoMainloop\<rparr>" None] z b
    by (simp add: call_on_error_def schedule_callback_def request0_def)
qed
section \<open>Properties of the auto-scaler\<close>




lemma scale_container_at_capacity:
  assumes "CLONE_NUM cfg \<le> int (length (existing_clones (name c) all_containers))"
  shows "scale_container rt cfg (Some c) (Some all_containers) =
           Log INFO ''Max clones reached for {container_name}. Pausing original and deleting clones.''
           # Runtime (PauseCall (name c))
           # (case pause_reply rt c of
                None \<Rightarrow> [Log INFO ''Paused original container {container_name}.'']
              | Some e \<Rightarrow>
                  if is_api_error e
                  then [Log ERROR ''Failed to pause original container {container_name}: {e}'']
                  else [Log ERROR ''Unexpected error pausing container {container_name}: {e}''])
           @ delete_clones rt (Some c) (Some all_containers)"
  using assms by (simp add: scale_container_def)

lemma scale_container_disabled_below_capacity:
  assumes "int (length (existing_clones (name c) all_containers)) < CLONE_NUM cfg"
    and "\<not> AUTO_SCALE_ENABLED cfg"
  shows "scale_container rt cfg (Some c) (Some all_containers) =
           [Log INFO ''Auto-scaling is disabled; skipping clone creation for {container_name}'']"
  using assms by (simp add: scale_container_def)





lemma handle_overloaded_disabled:
  assumes "\<not> AUTO_SCALE_ENABLED cur"
  shows "handle_overloaded rt cur v all_containers p =
           [Log INFO ''Auto-scaling disabled during handling; skipping scaling for {container.name}'']"
  using assms by (simp add: handle_overloaded_def split_beta)


lemma runtime_calls_append: "runtime_calls (xs @ ys) = runtime_calls xs @ runtime_calls ys"
  by (induction xs rule: runtime_calls.induct) simp_all

lemma runtime_calls_disabled_handling:
  assumes "\<not> AUTO_SCALE_ENABLED cur"
  shows "runtime_calls (concat (map (handle_overloaded rt cur v all_containers) ps)) = []"
  using assms
  by (induction ps) (simp_all add: runtime_calls_append handle_overloaded_disabled)

lemma handle_overloaded_disabled_pass:
  assumes "\<not> AUTO_SCALE_ENABLED cur"
  shows "concat (map (handle_overloaded rt cur v all_containers) ps) =
           replicate (length ps)
             (Log INFO ''Auto-scaling disabled during handling; skipping scaling for {container.name}'')"
  using assms by (induction ps) (simp_all add: handle_overloaded_disabled)











text \<open>
  C2, as the code has it.  When \<^verbatim>\<open>AUTO_SCALE_ENABLED\<close> is false at the start of a
  polling cycle, the scaling pass has no effect at all: no container is paused, no
  clone is deleted or created, nothing is logged.  When it has become false by the
  time the overloaded containers are handled, the effects of the pass are exactly
  one log record, that scaling is skipped, for each running non-clone container
  sampled as overloaded, and so no call to the runtime.  \<^verbatim>\<open>scale_container\<close> itself
  tests the flag after the at-capacity branch: called with the flag false at
  capacity, it logs, issues the pause of the parent, logs the outcome and deletes the
  clones; below capacity it only logs that auto-scaling is disabled.
\<close>

theorem autoscale_disabled_gates_whole_pass:
  "(\<not> AUTO_SCALE_ENABLED cfg \<longrightarrow> autoscale_pass rt cfg cur all_containers pairs = [])
   \<and> (AUTO_SCALE_ENABLED cfg \<and> \<not> AUTO_SCALE_ENABLED cur \<longrightarrow>
         autoscale_pass rt cfg cur all_containers pairs =
           replicate (length (running_overloaded cfg pairs))
             (Log INFO ''Auto-scaling disabled during handling; skipping scaling for {container.name}''))
   \<and> (\<not> AUTO_SCALE_ENABLED cur \<longrightarrow>
         runtime_calls (autoscale_pass rt cfg cur all_containers pairs) = [])
   \<and> (\<not> AUTO_SCALE_ENABLED cur
        \<and> CLONE_NUM cur \<le> int (length (existing_clones (name c) all_containers)) \<longrightarrow>
         scale_container rt cur (Some c) (Some all_containers) =
           Log INFO ''Max clones reached for {container_name}. Pausing original and deleting clones.''
           # Runtime (PauseCall (name c))
           # (case pause_reply rt c of
                None \<Rightarrow> [Log INFO ''Paused original container {container_name}.'']
              | Some e \<Rightarrow>
                  if is_api_error e
                  then [Log ERROR ''Failed to pause original container {container_name}: {e}'']
                  else [Log ERROR ''Unexpected error pausing container {container_name}: {e}''])
           @ delete_clones rt (Some c) (Some all_containers))
   \<and> (\<not> AUTO_SCALE_ENABLED cur
        \<and> int (length (existing_clones (name c) all_containers)) < CLONE_NUM cur \<longrightarrow>
         scale_container rt cur (Some c) (Some all_containers) =
           [Log INFO ''Auto-scaling is disabled; skipping clone creation for {container_name}''])"
proof (intro conjI impI)
  assume "\<not> AUTO_SCALE_ENABLED cfg"
  then show "autoscale_pass rt cfg cur all_containers pairs = []"
    by (simp add: autoscale_pass_def)
next
  assume "AUTO_SCALE_ENABLED cfg \<and> \<not> AUTO_SCALE_ENABLED cur"
  then show "autoscale_pass rt cfg cur all_containers pairs =
           replicate (length (running_overloaded cfg pairs))
             (Log INFO ''Auto-scaling disabled during handling; skipping scaling for {container.name}'')"
    by (simp add: autoscale_pass_def handle_overloaded_disabled_pass)
next
  assume "\<not> AUTO_SCALE_ENABLED cur"
  then show "runtime_calls (autoscale_pass rt cfg cur all_containers pairs) = []"
    by (simp add: autoscale_pass_def runtime_calls_disabled_handling)
next
  assume a: "\<not> AUTO_SCALE_ENABLED cur
        \<and> CLONE_NUM cur \<le> int (length (existing_clones (name c) all_containers))"
  then have cap: "CLONE_NUM cur \<le> int (length (existing_clones (name c) all_containers))"
    by simp
  show "scale_container rt cur (Some c) (Some all_containers) =
           Log INFO ''Max clones reached for {container_name}. Pausing original and deleting clones.''
           # Runtime (PauseCall (name c))
           # (case pause_reply rt c of
                None \<Rightarrow> [Log INFO ''Paused original container {container_name}.'']
              | Some e \<Rightarrow>
                  if is_api_error e
                  then [Log ERROR ''Failed to pause original container {container_name}: {e}'']
                  else [Log ERROR ''Unexpected error pausing container {container_name}: {e}''])
           @ delete_clones rt (Some c) (Some all_containers)"
    by (rule scale_container_at_capacity[OF cap])
next
  assume "\<not> AUTO_SCALE_ENABLED cur
        \<and> int (length (existing_clones (name c) all_containers)) < CLONE_NUM cur"
  then show "scale_container rt cur (Some c) (Some all_containers) =
           [Log INFO ''Auto-scaling is disabled; skipping clone creation for {container_name}'']"
    by (simp add: scale_container_disabled_below_capacity)
qed

lemma web_facts:
  "status web = ''running''" "name web = ''web''" "\<not> is_clone_container (Some web)"
  by (simp_all add: web_def is_clone_container_def)

lemma clone_facts:
  "is_clone_container (Some clone1)" "get_parent_container_name (Some clone1) = ''web''"
  "is_clone_container (Some clone2)" "get_parent_container_name (Some clone2) = ''web''"
  "name clone1 = ''web-clone-1''" "name clone2 = ''web-clone-2''"
  "status clone1 = ''running''" "status clone2 = ''running''"
  by (simp_all add: clone1_def clone2_def clone_labels_def is_clone_container_def
      get_parent_container_name_def)

lemma web_not_its_own_clone:
  "\<not> (is_clone_container (Some web) \<and> get_parent_container_name (Some web) = ''web'')"
  by (simp add: web_facts)

lemma fleet_clones: "existing_clones ''web'' fleet = [clone1, clone2]"
  by (simp add: existing_clones_def fleet_def clone_facts web_not_its_own_clone)

lemma alone_no_clones: "existing_clones ''web'' [web] = []"
  by (simp add: existing_clones_def web_not_its_own_clone)

lemma fmt2_int: "fmt2 (of_int k) = of_int k"
proof -
  have "\<lfloor>(of_int k :: rat) * 100\<rfloor> = k * 100"
    by (metis floor_of_int of_int_mult of_int_numeral)
  moreover have "(of_int k :: rat) * 100 - of_int (k * 100) = 0" by simp
  ultimately show ?thesis
    by (simp add: fmt2_def round_half_even_def Let_def)
qed

lemma sample_cpu:
  "calculate_cpu_percent (stats_with_cpu u) =
     Inr (if u - 100 > 0 then (u - 100) / 1000 * 100 else 0)"
  by (simp add: calculate_cpu_percent_def cpu_percent_body_def stats_with_cpu_def and_then_def
      py_sub_def py_mul_float_def)

lemma sample_ram: "calculate_ram_percent (stats_with_cpu u) = Inr 1"
  by (simp add: calculate_ram_percent_def ram_percent_body_def stats_with_cpu_def and_then_def
      py_truediv_def)

lemma sample_running:
  assumes "status c = ''running''" and "u = 100 + 10 * of_int k" and "0 < k"
  shows "get_container_stats (stats_of (rt_with (stats_with_cpu u))) (Some c) =
           (Some \<lparr>snap_id = short_id c, snap_name = name c, snap_status = status c,
                   cpu = of_int k, ram = 1\<rparr>,
            [Runtime (StatsCall (name c))])"
proof -
  have "calculate_cpu_percent (stats_with_cpu u) = Inr (of_int k)"
    using assms(2,3) by (simp add: sample_cpu)
  moreover have "fmt2 1 = 1" using fmt2_int[of 1] by simp
  ultimately show ?thesis
    using assms(1) by (simp add: get_container_stats_def rt_with_def sample_ram fmt2_int)
qed

lemma iteration_of_fleet:
  assumes "u = 100 + 10 * of_int k" and "0 < k"
  shows "monitor_iteration (rt_with (stats_with_cpu u)) cfg cur =
           ([Runtime (StatsCall ''web''), Runtime (StatsCall ''web-clone-1''),
             Runtime (StatsCall ''web-clone-2'')]
            @ autoscale_pass (rt_with (stats_with_cpu u)) cfg cur fleet (pairs_at (of_int k)),
            Some (map (\<lambda>c. \<lparr>snap_id = short_id c, snap_name = name c, snap_status = status c,
                               cpu = of_int k, ram = 1\<rparr>) fleet))"
proof -
  have l: "list_reply (rt_with (stats_with_cpu u)) = Inr fleet" by (simp add: rt_with_def)
  have s: "\<And>c. c \<in> set fleet \<Longrightarrow>
      get_container_stats (stats_of (rt_with (stats_with_cpu u))) (Some c) =
           (Some \<lparr>snap_id = short_id c, snap_name = name c, snap_status = status c,
                   cpu = of_int k, ram = 1\<rparr>,
            [Runtime (StatsCall (name c))])"
    using assms by (auto simp: fleet_def web_facts clone_facts intro!: sample_running)
  have m: "map (\<lambda>c. (c, get_container_stats (stats_of (rt_with (stats_with_cpu u))) (Some c))) fleet
         = map (\<lambda>c. (c, Some \<lparr>snap_id = short_id c, snap_name = name c, snap_status = status c,
                                 cpu = of_int k, ram = 1\<rparr>,
                          [Runtime (StatsCall (name c))])) fleet"
    by (rule map_cong) (simp_all add: s)
  show ?thesis
    unfolding monitor_iteration_def l sum.case Let_def m
    by (simp add: fleet_def pairs_at_def List.map_filter_simps web_facts clone_facts)
qed



lemma busy_overloaded:
  "(web, Some \<lparr>snap_id = ''aaa'', snap_name = ''web'', snap_status = ''running'',
               cpu = 80, ram = 1\<rparr>) \<in> set (pairs_at 80)"
  "is_overloaded default_config
     \<lparr>snap_id = ''aaa'', snap_name = ''web'', snap_status = ''running'', cpu = 80, ram = 1\<rparr>"
  by (simp_all add: pairs_at_def fleet_def web_def is_overloaded_def default_config_def)









text \<open>
  C2, as the claim states it, fails.  With \<^verbatim>\<open>AUTO_SCALE_ENABLED\<close> false, the running
  container \<^verbatim>\<open>web\<close>, not a clone, has two clones (\<^verbatim>\<open>CLONE_NUM\<close>) and is sampled at
  80\% CPU.  The polling cycle issues the three stats calls and nothing else: \<^verbatim>\<open>web\<close>
  is not paused, no clone is deleted, and nothing is logged.
\<close>

theorem disabled_at_capacity_counterexample:
  "\<not> AUTO_SCALE_ENABLED disabled_config
   \<and> status web = ''running'' \<and> \<not> is_clone_container (Some web)
   \<and> existing_clones (name web) fleet = [clone1, clone2]
   \<and> CLONE_NUM disabled_config = 2
   \<and> monitor_iteration rt_busy disabled_config disabled_config =
       ([Runtime (StatsCall ''web''), Runtime (StatsCall ''web-clone-1''),
         Runtime (StatsCall ''web-clone-2'')],
        Some [\<lparr>snap_id = ''aaa'', snap_name = ''web'', snap_status = ''running'',
                 cpu = 80, ram = 1\<rparr>,
              \<lparr>snap_id = ''bbb'', snap_name = ''web-clone-1'', snap_status = ''running'',
                 cpu = 80, ram = 1\<rparr>,
              \<lparr>snap_id = ''ccc'', snap_name = ''web-clone-2'', snap_status = ''running'',
                 cpu = 80, ram = 1\<rparr>])"
proof -
  have "monitor_iteration rt_busy disabled_config disabled_config =
          ([Runtime (StatsCall ''web''), Runtime (StatsCall ''web-clone-1''),
            Runtime (StatsCall ''web-clone-2'')]
           @ autoscale_pass rt_busy disabled_config disabled_config fleet (pairs_at (of_int 80)),
           Some (map (\<lambda>c. \<lparr>snap_id = short_id c, snap_name = name c, snap_status = status c,
                              cpu = of_int 80, ram = 1\<rparr>) fleet))"
    unfolding rt_busy_def by (rule iteration_of_fleet) simp_all
  moreover have "autoscale_pass rt_busy disabled_config disabled_config fleet (pairs_at 80) = []"
    by (simp add: autoscale_pass_def disabled_config_def)
  ultimately show ?thesis
    by (simp add: web_facts fleet_clones default_config_def disabled_config_def)
      (simp add: fleet_def web_def clone1_def clone2_def)
qed

lemma busy_running_overloaded:
  "running_overloaded default_config (pairs_at 80) =
     [(web, \<lparr>snap_id = ''aaa'', snap_name = ''web'', snap_status = ''running'',
              cpu = 80, ram = 1\<rparr>)]"
  by (simp add: running_overloaded_def pairs_at_def fleet_def List.map_filter_simps
      web_facts clone_facts is_overloaded_def default_config_def)
    (simp add: web_def)

theorem autoscale_disabled_gates_whole_pass_witness:
  "\<not> AUTO_SCALE_ENABLED disabled_config
   \<and> AUTO_SCALE_ENABLED default_config
   \<and> autoscale_pass rt_busy disabled_config disabled_config fleet (pairs_at 80) = []
   \<and> autoscale_pass rt_busy default_config disabled_config fleet (pairs_at 80) =
       [Log INFO ''Auto-scaling disabled during handling; skipping scaling for {container.name}'']
   \<and> runtime_calls (autoscale_pass rt_busy default_config disabled_config fleet (pairs_at 80)) = []
   \<and> CLONE_NUM disabled_config \<le> int (length (existing_clones (name web) fleet))
   \<and> scale_container rt_busy disabled_config (Some web) (Some fleet) =
       [Log INFO ''Max clones reached for {container_name}. Pausing original and deleting clones.'',
        Runtime (PauseCall ''web''),
        Log INFO ''Paused original container {container_name}.'',
        Runtime (StopCall ''web-clone-1'' 10),
        Runtime (RemoveCall ''web-clone-1''),
        Log INFO ''Deleted clone container {clone.name}.'',
        Runtime (StopCall ''web-clone-2'' 10),
        Runtime (RemoveCall ''web-clone-2''),
        Log INFO ''Deleted clone container {clone.name}.'']
   \<and> int (length (existing_clones (name web) [web])) < CLONE_NUM disabled_config
   \<and> scale_container rt_busy disabled_config (Some web) (Some [web]) =
       [Log INFO ''Auto-scaling is disabled; skipping clone creation for {container_name}'']"
proof -
  note t = autoscale_disabled_gates_whole_pass
    [where cfg = disabled_config and cur = disabled_config and c = web and rt = rt_busy
       and pairs = "pairs_at 80" and all_containers = fleet]
  note t2 = autoscale_disabled_gates_whole_pass
    [where cfg = default_config and cur = disabled_config and c = web and rt = rt_busy
       and pairs = "pairs_at 80" and all_containers = "[web]"]
  note t3 = autoscale_disabled_gates_whole_pass
    [where cfg = default_config and cur = disabled_config and c = web and rt = rt_busy
       and pairs = "pairs_at 80" and all_containers = fleet]
  have d: "\<not> AUTO_SCALE_ENABLED disabled_config" "CLONE_NUM disabled_config = 2"
    "AUTO_SCALE_ENABLED default_config"
    by (simp_all add: disabled_config_def default_config_def)
  have cap: "CLONE_NUM disabled_config \<le> int (length (existing_clones (name web) fleet))"
    by (simp add: d web_facts fleet_clones)
  have below: "int (length (existing_clones (name web) [web])) < CLONE_NUM disabled_config"
    by (simp add: d web_facts alone_no_clones)
  have del: "delete_clones rt_busy (Some web) (Some fleet) =
       [Runtime (StopCall ''web-clone-1'' 10),
        Runtime (RemoveCall ''web-clone-1''),
        Log INFO ''Deleted clone container {clone.name}.'',
        Runtime (StopCall ''web-clone-2'' 10),
        Runtime (RemoveCall ''web-clone-2''),
        Log INFO ''Deleted clone container {clone.name}.'']"
    by (simp add: delete_clones_def web_facts fleet_clones delete_clone_def Let_def
        rt_busy_def rt_with_def clone_facts)
  have pr: "pause_reply rt_busy web = None" by (simp add: rt_busy_def rt_with_def)
  from t t2 t3 d cap below del pr show ?thesis
    by (simp add: web_facts busy_running_overloaded)
qed

section \<open>Properties of the event listener\<close>











lemma handle_event_raised:
  assumes "qualifying (PDict entries)"
    and "snd (snd (notify_docker_event update entries ctl)) = Some e"
  shows "handle_event update now (PDict entries) (lst, ctl) =
           ((lst, fst (notify_docker_event update entries ctl)),
            Log INFO ''Docker event detected: {event_action} on container {container_name}''
            # fst (snd (notify_docker_event update entries ctl))
            @ [Log ERROR ''Error handling event: {e}''])"
proof -
  obtain ctl' es exc where n: "notify_docker_event update entries ctl = (ctl', es, exc)"
    by (rule prod_cases3)
  from assms show ?thesis
    by (simp add: handle_event_def event_body_def qualifying_def n)
qed








lemma event_of_qualifying:
  "action \<in> set relevant_events \<Longrightarrow> qualifying (event_of action)"
  by (simp add: qualifying_def event_of_def is_relevant_def is_app_container_def and_then_def
      startswith_def APP_CONTAINER_NAME_PREFIX_def APP_CREATED_BY_LABEL_def)



text \<open>
  The first event of the same pair when an unhashable observer raises on it: both
  observers receive the event, the error is logged, and no refresh is triggered.
\<close>

lemma first_event_with_unhashable_observer:
  "handle_event unhashable_raises 1001 (event_of ''stop'')
     (listener0, controller0\<lparr>observers := [Hashable 1, Unhashable 2]\<rparr>)
   = ((listener0, controller0\<lparr>observers := [Hashable 1, Unhashable 2]\<rparr>),
      [Log INFO ''Docker event detected: {event_action} on container {container_name}'',
       Log DEBUG ''{self.__class__.__name__} notifying {len(observers)} observers of {event_type}'',
       Update (Hashable 1) \<lparr>event_type = ''docker_event'', data = DataEvent (event_of ''stop'')\<rparr>,
       Update (Unhashable 2) \<lparr>event_type = ''docker_event'', data = DataEvent (event_of ''stop'')\<rparr>,
       Log ERROR ''Error notifying observer {observer.__class__.__name__}: {e}'',
       Log ERROR ''Error handling event: {e}''])"
proof -
  have q: "qualifying (PDict [(''Type'', PStr ''container''), (''Action'', PStr ''stop''),
            (''Actor'', PDict [(''Attributes'', PDict [(''name'', PStr ''dmm-web'')])])])"
    using event_of_qualifying[of "''stop''"] by (simp add: relevant_events_def event_of_def)
  have n: "notifyObservers unhashable_raises ''docker_event''
             (DataEvent (event_of ''stop'')) [Hashable 1, Unhashable 2]
           = ([Hashable 1, Unhashable 2],
              [Log DEBUG ''{self.__class__.__name__} notifying {len(observers)} observers of {event_type}'',
               Update (Hashable 1) \<lparr>event_type = ''docker_event'', data = DataEvent (event_of ''stop'')\<rparr>,
               Update (Unhashable 2) \<lparr>event_type = ''docker_event'', data = DataEvent (event_of ''stop'')\<rparr>,
               Log ERROR ''Error notifying observer {observer.__class__.__name__}: {e}''],
              Some TypeError)"
    by (simp add: notifyObservers_def Let_def notify_observer_def unhashable_raises_def
        List.map_filter_simps)
  have d: "notify_docker_event unhashable_raises
             [(''Type'', PStr ''container''), (''Action'', PStr ''stop''),
              (''Actor'', PDict [(''Attributes'', PDict [(''name'', PStr ''dmm-web'')])])]
             (controller0\<lparr>observers := [Hashable 1, Unhashable 2]\<rparr>)
           = (controller0\<lparr>observers := [Hashable 1, Unhashable 2]\<rparr>,
              [Log DEBUG ''{self.__class__.__name__} notifying {len(observers)} observers of {event_type}'',
               Update (Hashable 1) \<lparr>event_type = ''docker_event'', data = DataEvent (event_of ''stop'')\<rparr>,
               Update (Unhashable 2) \<lparr>event_type = ''docker_event'', data = DataEvent (event_of ''stop'')\<rparr>,
               Log ERROR ''Error notifying observer {observer.__class__.__name__}: {e}''],
              Some TypeError)"
    using n by (simp add: notify_docker_event_def event_of_def)
  have x: "snd (snd (notify_docker_event unhashable_raises
             [(''Type'', PStr ''container''), (''Action'', PStr ''stop''),
              (''Actor'', PDict [(''Attributes'', PDict [(''name'', PStr ''dmm-web'')])])]
             (controller0\<lparr>observers := [Hashable 1, Unhashable 2]\<rparr>))) = Some TypeError"
    unfolding d by simp
  show ?thesis
    unfolding event_of_def[of "''stop''"] handle_event_raised[OF q x] d
    by (simp add: event_of_def)
qed

end
